theory Spec2Isabelle
  imports Main "HOL-Library.Word"
begin

section \<open>Go values carried by the metadata\<close>

text \<open>
  Floating-point numbers are kept as their IEEE-754 bit patterns: the code never computes
  with them, it only hands them on.  Go's \<open>int\<close> is the 64-bit two's complement integer of
  the usual platforms.  A \<open>time.Time\<close> is an instant together with the name of its location.
\<close>

type_synonym float32 = "32 word"
type_synonym float64 = "64 word"
type_synonym goint = "64 word"

datatype GoTime = GoTime int string

text \<open>
  \<open>CellMetadata.Value\<close> is an \<open>interface{}\<close>: \<open>None\<close> below is the nil interface, and a
  value carries its dynamic type.  The first eight constructors are the dynamic types the
  type switch of \<open>recreateCells\<close> names; \<open>VString\<close> is a Go string and \<open>VOther\<close> stands for a
  value of any other dynamic type (\<open>int64\<close>, the unsigned integers, \<open>json.Number\<close>, ...),
  given by the text \<open>fmt.Sprintf("%v", v)\<close> renders for it.
\<close>

datatype CellValue =
    VFloat32 float32
  | VFloat64 float64
  | VInt goint
  | VInt8 "8 word"
  | VInt16 "16 word"
  | VInt32 "32 word"
  | VBool bool
  | VTime GoTime
  | VString string
  | VOther string

section \<open>The metadata document (package excelmetadata, the fields the code reads)\<close>

record DocProperties =
  Title :: string
  Subject :: string
  Creator :: string
  Keywords :: string
  Description :: string
  LastModifiedBy :: string
  Category :: string
  Version :: string
  Created :: string
  Modified :: string

record FontStyle =
  Bold :: bool
  Italic :: bool
  Underline :: string
  Strike :: bool
  Family :: string
  Size :: float64
  FontColor :: string

record FillStyle =
  FillType :: string
  Pattern :: int
  FillColor :: "string list"

record BorderStyle =
  BorderType :: string
  BorderColor :: string
  BorderLine :: int

record AlignmentStyle =
  Horizontal :: string
  Vertical :: string
  WrapText :: bool
  TextRotation :: int
  Indent :: int
  ShrinkToFit :: bool

record ProtectionStyle =
  Hidden :: bool
  Locked :: bool

record StyleDetails =
  Font :: "FontStyle option"
  Fill :: "FillStyle option"
  Border :: "BorderStyle list"
  Alignment :: "AlignmentStyle option"
  NumberFormat :: int
  Protection :: "ProtectionStyle option"

record Hyperlink =
  Link :: string

record CellMetadata =
  Address :: string
  Value :: "CellValue option"
  Formula :: string
  StyleID :: int
  Hyperlink :: "Hyperlink option"

record MergedCell =
  StartCell :: string
  EndCell :: string

record DataValidation =
  Range :: string
  ValidationType :: string
  Operator :: string
  Formula1 :: string
  Formula2 :: string
  ShowError :: bool
  ErrorTitle :: "string option"
  ErrorMessage :: "string option"

record SheetProtection =
  Protected :: bool
  Password :: string
  EditObjects :: bool
  EditScenarios :: bool
  SelectLockedCells :: bool
  SelectUnlockedCells :: bool

text \<open>
  \<open>ColWidths\<close> and \<open>RowHeights\<close> are Go maps; a \<open>range\<close> loop visits the entries of a map
  in an order the runtime chooses anew for every loop.  Each map is therefore given as the
  list of its entries in the order the loop visits them.
\<close>

record SheetMetadata =
  Index :: goint
  Name :: string
  Visible :: bool
  ColWidths :: "(string \<times> float64) list"
  RowHeights :: "(goint \<times> float64) list"
  Cells :: "CellMetadata list"
  MergedCells :: "MergedCell list"
  DataValidations :: "DataValidation list"
  SheetProtect :: "SheetProtection option"

record DefinedName =
  DefName :: string
  RefersTo :: string
  Scope :: string

text \<open>\<open>Styles\<close> is the Go map \<open>map[int]StyleDetails\<close>, again as the list of its entries in
  the order \<open>recreateStyles\<close> visits them; the keys of a map are distinct.\<close>

record Metadata =
  Properties :: DocProperties
  Sheets :: "SheetMetadata list"
  Styles :: "(int \<times> StyleDetails) list"
  DefinedNames :: "DefinedName list"

section \<open>The workbook engine (package excelize)\<close>

text \<open>
  The engine is a library outside the repository.  Its state is modelled by the part of a
  workbook the code can reach, and its operations by their documented contracts.  What the
  engine and the Go runtime decide on their own (which names, cell references, styles and
  properties are accepted, how text is parsed as a number) is not fixed here: it is the
  parameter \<open>X\<close> of every operation.
\<close>

record Style =
  StyleFont :: "FontStyle option"
  StyleFill :: "FillStyle"
  StyleBorder :: "BorderStyle list"
  StyleAlignment :: "AlignmentStyle option"
  NumFmt :: int
  StyleProtection :: "ProtectionStyle option"

record XDataValidation =
  XType :: string
  XOperator :: string
  XFormula1 :: string
  XFormula2 :: string
  ShowErrorMessage :: bool
  XErrorTitle :: "string option"
  XError :: "string option"
  Sqref :: string

record SheetProtectionOptions =
  OptPassword :: string
  OptEditObjects :: bool
  OptEditScenarios :: bool
  OptSelectLockedCells :: bool
  OptSelectUnlockedCells :: bool

record XDefinedName =
  XName :: string
  XRefersTo :: string
  XScope :: string

record Extern =
  ParseFloat :: "string \<Rightarrow> float64 option"
  Float32to64 :: "float32 \<Rightarrow> float64"
  CellNameToCoordinates :: "string \<Rightarrow> (int \<times> int) option"
  checkSheetName :: "string \<Rightarrow> bool"
  acceptStyle :: "Style \<Rightarrow> bool"
  acceptDocProps :: "DocProperties \<Rightarrow> bool"
  acceptDefinedName :: "XDefinedName \<Rightarrow> bool"

datatype error =
    ErrSheetName string
  | ErrSheetNotExist string
  | ErrCellName string
  | ErrStyle
  | ErrStyleID int
  | ErrLinkType string
  | ErrDocProps
  | ErrDefinedName string
  | Errorf string error

text \<open>What a cell holds after one of the typed writes.\<close>

datatype CellContent =
    Number float64 int int
  | Integer "64 word"
  | Boolean bool
  | DateTime GoTime
  | Text string

type_synonym cellref = "string \<times> int \<times> int"

record File =
  SheetList :: "string list"
  ActiveSheet :: nat
  SheetVisible :: "string \<rightharpoonup> bool"
  ColWidth :: "string \<times> string \<times> string \<rightharpoonup> float64"
  RowHeight :: "string \<times> goint \<rightharpoonup> float64"
  CellValues :: "cellref \<rightharpoonup> CellContent"
  CellFormulas :: "cellref \<rightharpoonup> string"
  CellStyles :: "cellref \<rightharpoonup> int"
  CellLinks :: "cellref \<rightharpoonup> string \<times> string"
  Merges :: "(string \<times> string \<times> string) list"
  Validations :: "(string \<times> XDataValidation) list"
  Protections :: "string \<rightharpoonup> SheetProtectionOptions"
  StyleTable :: "Style list"
  Props :: "DocProperties option"
  Defined :: "XDefinedName list"

definition zeroFill :: FillStyle where
  "zeroFill = \<lparr>FillType = [], Pattern = 0, FillColor = []\<rparr>"

definition zeroStyle :: Style where
  "zeroStyle = \<lparr>StyleFont = None, StyleFill = zeroFill, StyleBorder = [],
     StyleAlignment = None, NumFmt = 0, StyleProtection = None\<rparr>"

text \<open>\<open>excelize.NewFile()\<close>: a workbook with the one worksheet \<open>Sheet1\<close>, active, and the
  default cell style, whose identifier is 0.\<close>

definition NewFile :: File where
  "NewFile = \<lparr>SheetList = [''Sheet1''], ActiveSheet = 0, SheetVisible = Map.empty,
     ColWidth = Map.empty, RowHeight = Map.empty, CellValues = Map.empty,
     CellFormulas = Map.empty, CellStyles = Map.empty, CellLinks = Map.empty,
     Merges = [], Validations = [], Protections = Map.empty,
     StyleTable = [zeroStyle], Props = None, Defined = []\<rparr>"


text \<open>\<open>GetSheetIndex\<close>: the position of a worksheet in the workbook, \<open>-1\<close> for none.\<close>

fun indexOf :: "string \<Rightarrow> string list \<Rightarrow> int" where
  "indexOf n [] = -1"
| "indexOf n (x # xs) = (if x = n then 0 else (let i = indexOf n xs in if i < 0 then -1 else i + 1))"

definition GetSheetIndex :: "File \<Rightarrow> string \<Rightarrow> int" where
  "GetSheetIndex f sheet = indexOf sheet (SheetList f)"

text \<open>\<open>SetActiveSheet(index)\<close>: a negative index counts as 0; an index that is no position
  of the workbook leaves the active tab as it is.\<close>

definition SetActiveSheet :: "File \<Rightarrow> int \<Rightarrow> File" where
  "SetActiveSheet f index =
     (let i = (if index < 0 then 0 else index) in
      if i < int (length (SheetList f)) then f\<lparr>ActiveSheet := nat i\<rparr> else f)"

text \<open>\<open>DeleteSheet(sheet)\<close>.  The library documents: "This function will be invalid when
  only one worksheet is left"; it then returns without an error and without a change, as
  it does for a name the workbook does not have.  Otherwise the worksheet goes with all it
  holds, and the sheet that was active stays active (the first sheet, if it was the one
  deleted).\<close>

definition dropSheet :: "string \<Rightarrow> (string \<times> 'a \<rightharpoonup> 'b) \<Rightarrow> (string \<times> 'a \<rightharpoonup> 'b)" where
  "dropSheet sheet m = (\<lambda>k. if fst k = sheet then None else m k)"

definition DeleteSheet :: "File \<Rightarrow> string \<Rightarrow> File" where
  "DeleteSheet f sheet =
     (if length (SheetList f) = 1 then f
      else if sheet \<notin> set (SheetList f) then f
      else
        let activeSheetName = SheetList f ! ActiveSheet f;
            f1 = f\<lparr>SheetList := removeAll sheet (SheetList f),
                   SheetVisible := (SheetVisible f)(sheet := None),
                   ColWidth := dropSheet sheet (ColWidth f),
                   RowHeight := dropSheet sheet (RowHeight f),
                   CellValues := dropSheet sheet (CellValues f),
                   CellFormulas := dropSheet sheet (CellFormulas f),
                   CellStyles := dropSheet sheet (CellStyles f),
                   CellLinks := dropSheet sheet (CellLinks f),
                   Merges := filter (\<lambda>m. fst m \<noteq> sheet) (Merges f),
                   Validations := filter (\<lambda>v. fst v \<noteq> sheet) (Validations f),
                   Protections := (Protections f)(sheet := None)\<rparr>
        in SetActiveSheet f1 (GetSheetIndex f1 activeSheetName))"

text \<open>\<open>NewSheet(sheet)\<close>: an error for a name the engine refuses; the index of the
  worksheet of that name if the workbook has one already (nothing is created then);
  otherwise the new worksheet is appended.\<close>

definition NewSheet :: "Extern \<Rightarrow> File \<Rightarrow> string \<Rightarrow> (error + int) \<times> File" where
  "NewSheet X f sheet =
     (if checkSheetName X sheet = False then (Inl (ErrSheetName sheet), f)
      else if sheet \<in> set (SheetList f) then (Inr (GetSheetIndex f sheet), f)
      else (Inr (int (length (SheetList f))), f\<lparr>SheetList := SheetList f @ [sheet]\<rparr>))"

definition SetSheetVisible :: "File \<Rightarrow> string \<Rightarrow> bool \<Rightarrow> error option \<times> File" where
  "SetSheetVisible f sheet visible =
     (if sheet \<notin> set (SheetList f) then (Some (ErrSheetNotExist sheet), f)
      else (None, f\<lparr>SheetVisible := (SheetVisible f)(sheet \<mapsto> visible)\<rparr>))"

definition SetColWidth :: "File \<Rightarrow> string \<Rightarrow> string \<Rightarrow> string \<Rightarrow> float64 \<Rightarrow> error option \<times> File" where
  "SetColWidth f sheet startCol endCol width =
     (if sheet \<notin> set (SheetList f) then (Some (ErrSheetNotExist sheet), f)
      else (None, f\<lparr>ColWidth := (ColWidth f)((sheet, startCol, endCol) \<mapsto> width)\<rparr>))"

definition SetRowHeight :: "File \<Rightarrow> string \<Rightarrow> goint \<Rightarrow> float64 \<Rightarrow> error option \<times> File" where
  "SetRowHeight f sheet row height =
     (if sheet \<notin> set (SheetList f) then (Some (ErrSheetNotExist sheet), f)
      else (None, f\<lparr>RowHeight := (RowHeight f)((sheet, row) \<mapsto> height)\<rparr>))"

text \<open>The cell a call addresses: the worksheet must exist and the reference must parse.\<close>

definition cellKey :: "Extern \<Rightarrow> File \<Rightarrow> string \<Rightarrow> string \<Rightarrow> error + cellref" where
  "cellKey X f sheet cell =
     (if sheet \<notin> set (SheetList f) then Inl (ErrSheetNotExist sheet)
      else case CellNameToCoordinates X cell of
             None \<Rightarrow> Inl (ErrCellName cell)
           | Some c \<Rightarrow> Inr (sheet, c))"

definition SetCellFormula :: "Extern \<Rightarrow> File \<Rightarrow> string \<Rightarrow> string \<Rightarrow> string \<Rightarrow> error option \<times> File" where
  "SetCellFormula X f sheet cell formula =
     (case cellKey X f sheet cell of
        Inl e \<Rightarrow> (Some e, f)
      | Inr k \<Rightarrow> (None, f\<lparr>CellFormulas := (CellFormulas f)(k \<mapsto> formula)\<rparr>))"

definition setContent :: "Extern \<Rightarrow> File \<Rightarrow> string \<Rightarrow> string \<Rightarrow> CellContent \<Rightarrow> error option \<times> File" where
  "setContent X f sheet cell c =
     (case cellKey X f sheet cell of
        Inl e \<Rightarrow> (Some e, f)
      | Inr k \<Rightarrow> (None, f\<lparr>CellValues := (CellValues f)(k \<mapsto> c)\<rparr>))"

definition SetCellFloat :: "Extern \<Rightarrow> File \<Rightarrow> string \<Rightarrow> string \<Rightarrow> float64 \<Rightarrow> int \<Rightarrow> int \<Rightarrow> error option \<times> File" where
  "SetCellFloat X f sheet cell v precision bitSize = setContent X f sheet cell (Number v precision bitSize)"

definition SetCellInt :: "Extern \<Rightarrow> File \<Rightarrow> string \<Rightarrow> string \<Rightarrow> 64 word \<Rightarrow> error option \<times> File" where
  "SetCellInt X f sheet cell v = setContent X f sheet cell (Integer v)"

definition SetCellBool :: "Extern \<Rightarrow> File \<Rightarrow> string \<Rightarrow> string \<Rightarrow> bool \<Rightarrow> error option \<times> File" where
  "SetCellBool X f sheet cell v = setContent X f sheet cell (Boolean v)"

text \<open>\<open>SetCellValue(sheet, cell, value)\<close> takes an \<open>interface{}\<close> and writes by the dynamic
  type of the value: a \<open>time.Time\<close> as the engine's date and time, a string as text.  The
  code calls it with these two only; any other value is written as the typed setters do,
  and a value of a type the engine does not know as its text.\<close>

definition SetCellValue :: "Extern \<Rightarrow> File \<Rightarrow> string \<Rightarrow> string \<Rightarrow> CellValue \<Rightarrow> error option \<times> File" where
  "SetCellValue X f sheet cell v =
     (case v of
        VTime t \<Rightarrow> setContent X f sheet cell (DateTime t)
      | VString s \<Rightarrow> setContent X f sheet cell (Text s)
      | VFloat32 x \<Rightarrow> SetCellFloat X f sheet cell (Float32to64 X x) (-1) 32
      | VFloat64 x \<Rightarrow> SetCellFloat X f sheet cell x (-1) 64
      | VInt x \<Rightarrow> SetCellInt X f sheet cell x
      | VInt8 x \<Rightarrow> SetCellInt X f sheet cell (scast x)
      | VInt16 x \<Rightarrow> SetCellInt X f sheet cell (scast x)
      | VInt32 x \<Rightarrow> SetCellInt X f sheet cell (scast x)
      | VBool b \<Rightarrow> SetCellBool X f sheet cell b
      | VOther s \<Rightarrow> setContent X f sheet cell (Text s))"

text \<open>\<open>SetCellStyle(sheet, topLeftCell, bottomRightCell, styleID)\<close>: the identifier must be
  one of the style table; every cell of the rectangle gets it.\<close>

definition SetCellStyle :: "Extern \<Rightarrow> File \<Rightarrow> string \<Rightarrow> string \<Rightarrow> string \<Rightarrow> int \<Rightarrow> error option \<times> File" where
  "SetCellStyle X f sheet topLeftCell bottomRightCell styleID =
     (case cellKey X f sheet topLeftCell of
        Inl e \<Rightarrow> (Some e, f)
      | Inr (s, c1, r1) \<Rightarrow>
          (case cellKey X f sheet bottomRightCell of
             Inl e \<Rightarrow> (Some e, f)
           | Inr (s', c2, r2) \<Rightarrow>
               if styleID < 0 \<or> int (length (StyleTable f)) \<le> styleID then (Some (ErrStyleID styleID), f)
               else (None, f\<lparr>CellStyles := (\<lambda>(n, c, r).
                      if n = sheet \<and> min c1 c2 \<le> c \<and> c \<le> max c1 c2 \<and> min r1 r2 \<le> r \<and> r \<le> max r1 r2
                      then Some styleID else CellStyles f (n, c, r))\<rparr>)))"

definition SetCellHyperLink :: "Extern \<Rightarrow> File \<Rightarrow> string \<Rightarrow> string \<Rightarrow> string \<Rightarrow> string \<Rightarrow> error option \<times> File" where
  "SetCellHyperLink X f sheet cell link linkType =
     (case cellKey X f sheet cell of
        Inl e \<Rightarrow> (Some e, f)
      | Inr k \<Rightarrow>
          if linkType \<noteq> ''External'' \<and> linkType \<noteq> ''Location'' then (Some (ErrLinkType linkType), f)
          else (None, f\<lparr>CellLinks := (CellLinks f)(k \<mapsto> (link, linkType))\<rparr>))"

definition MergeCell :: "File \<Rightarrow> string \<Rightarrow> string \<Rightarrow> string \<Rightarrow> error option \<times> File" where
  "MergeCell f sheet topLeftCell bottomRightCell =
     (if sheet \<notin> set (SheetList f) then (Some (ErrSheetNotExist sheet), f)
      else (None, f\<lparr>Merges := Merges f @ [(sheet, topLeftCell, bottomRightCell)]\<rparr>))"

definition AddDataValidation :: "File \<Rightarrow> string \<Rightarrow> XDataValidation \<Rightarrow> error option \<times> File" where
  "AddDataValidation f sheet dv =
     (if sheet \<notin> set (SheetList f) then (Some (ErrSheetNotExist sheet), f)
      else (None, f\<lparr>Validations := Validations f @ [(sheet, dv)]\<rparr>))"

definition ProtectSheet :: "File \<Rightarrow> string \<Rightarrow> SheetProtectionOptions \<Rightarrow> error option \<times> File" where
  "ProtectSheet f sheet opts =
     (if sheet \<notin> set (SheetList f) then (Some (ErrSheetNotExist sheet), f)
      else (None, f\<lparr>Protections := (Protections f)(sheet \<mapsto> opts)\<rparr>))"

text \<open>\<open>SetDefinedName\<close>: an error for a name the engine refuses and for a name that is
  defined in the same scope already.\<close>

definition SetDefinedName :: "Extern \<Rightarrow> File \<Rightarrow> XDefinedName \<Rightarrow> error option \<times> File" where
  "SetDefinedName X f dn =
     (if acceptDefinedName X dn \<and> (XName dn, XScope dn) \<notin> set (map (\<lambda>d. (XName d, XScope d)) (Defined f))
      then (None, f\<lparr>Defined := Defined f @ [dn]\<rparr>)
      else (Some (ErrDefinedName (XName dn)), f))"

definition SetDocProps :: "Extern \<Rightarrow> File \<Rightarrow> DocProperties \<Rightarrow> error option \<times> File" where
  "SetDocProps X f props =
     (if acceptDocProps X props then (None, f\<lparr>Props := Some props\<rparr>) else (Some ErrDocProps, f))"

text \<open>\<open>NewStyle(style)\<close>: an error for a style the engine refuses; the identifier of an
  equal style if the table has one; otherwise the style is appended to the table and its
  position is its identifier.\<close>

fun lookupStyle :: "Style \<Rightarrow> Style list \<Rightarrow> nat option" where
  "lookupStyle s [] = None"
| "lookupStyle s (x # xs) = (if x = s then Some 0 else map_option Suc (lookupStyle s xs))"

definition NewStyle :: "Extern \<Rightarrow> File \<Rightarrow> Style \<Rightarrow> int option \<times> File" where
  "NewStyle X f style =
     (if acceptStyle X style = False then (None, f)
      else case lookupStyle style (StyleTable f) of
             Some i \<Rightarrow> (Some (int i), f)
           | None \<Rightarrow> (Some (int (length (StyleTable f))), f\<lparr>StyleTable := StyleTable f @ [style]\<rparr>))"


section \<open>The recreator (excelrecreator.go)\<close>

record Options =
  PreserveFormulas :: bool
  PreserveStyles :: bool
  PreserveDataValidation :: bool
  SkipEmptyCells :: bool
  DefaultSheetName :: string

record Recreator =
  file' :: File
  metadata :: Metadata
  options :: Options
  styleMap :: "int \<rightharpoonup> int"

definition DefaultOptions :: Options where
  "DefaultOptions = \<lparr>PreserveFormulas = True, PreserveStyles = True,
     PreserveDataValidation = True, SkipEmptyCells = True, DefaultSheetName = ''Sheet''\<rparr>"

text \<open>\<open>New(metadata, options)\<close>; the \<open>options\<close> pointer may be nil.\<close>

definition New :: "Metadata \<Rightarrow> Options option \<Rightarrow> Recreator" where
  "New md opts =
     (let opts = (case opts of None \<Rightarrow> DefaultOptions | Some o' \<Rightarrow> o') in
      \<lparr>file' = NewFile, metadata = md, options = opts, styleMap = Map.empty\<rparr>)"

subsection \<open>\<open>fmt.Sprintf\<close> with \<open>%d\<close>\<close>

fun showNat :: "nat \<Rightarrow> string" where
  "showNat n = (if n < 10 then [''0123456789'' ! n]
                else showNat (n div 10) @ [''0123456789'' ! (n mod 10)])"

declare showNat.simps [simp del]

definition showInt :: "int \<Rightarrow> string" where
  "showInt i = (if i < 0 then CHR ''-'' # showNat (nat (- i)) else showNat (nat i))"

subsection \<open>Document properties and styles\<close>

definition recreateDocumentProperties :: "Extern \<Rightarrow> Recreator \<Rightarrow> error option \<times> Recreator" where
  "recreateDocumentProperties X r =
     (let p = Properties (metadata r);
          props = \<lparr>Title = Title p, Subject = Subject p, Creator = Creator p,
                   Keywords = Keywords p, Description = Description p,
                   LastModifiedBy = LastModifiedBy p, Category = Category p,
                   Version = Version p, Created = Created p, Modified = Modified p\<rparr>;
          (err, f) = SetDocProps X (file' r) props
      in (err, r\<lparr>file' := f\<rparr>))"

text \<open>The style one pass of the loop of \<open>recreateStyles\<close> builds from an entry: only the
  parts that are present are copied.\<close>

definition buildStyle :: "StyleDetails \<Rightarrow> Style" where
  "buildStyle styleMeta =
     (let style = zeroStyle;
          style = (case Font styleMeta of
                     Some fnt \<Rightarrow> style\<lparr>StyleFont := Some \<lparr>Bold = Bold fnt, Italic = Italic fnt,
                        Underline = Underline fnt, Strike = Strike fnt, Family = Family fnt,
                        Size = Size fnt, FontColor = FontColor fnt\<rparr>\<rparr>
                   | None \<Rightarrow> style);
          style = (case Fill styleMeta of
                     Some fl \<Rightarrow> if length (FillColor fl) > 0
                                then style\<lparr>StyleFill := \<lparr>FillType = FillType fl, Pattern = Pattern fl,
                                       FillColor = FillColor fl\<rparr>\<rparr>
                                else style
                   | None \<Rightarrow> style);
          style = (if length (Border styleMeta) > 0
                   then style\<lparr>StyleBorder := map (\<lambda>borderMeta. \<lparr>BorderType = BorderType borderMeta,
                          BorderColor = BorderColor borderMeta, BorderLine = BorderLine borderMeta\<rparr>)
                          (Border styleMeta)\<rparr>
                   else style);
          style = (case Alignment styleMeta of
                     Some al \<Rightarrow> style\<lparr>StyleAlignment := Some \<lparr>Horizontal = Horizontal al,
                        Vertical = Vertical al, WrapText = WrapText al,
                        TextRotation = TextRotation al, Indent = Indent al,
                        ShrinkToFit = ShrinkToFit al\<rparr>\<rparr>
                   | None \<Rightarrow> style);
          style = (if NumberFormat styleMeta \<noteq> 0 then style\<lparr>NumFmt := NumberFormat styleMeta\<rparr> else style);
          style = (case Protection styleMeta of
                     Some pr \<Rightarrow> style\<lparr>StyleProtection := Some \<lparr>Hidden = Hidden pr, Locked = Locked pr\<rparr>\<rparr>
                   | None \<Rightarrow> style)
      in style)"

text \<open>The loop of \<open>recreateStyles\<close> over the entries of the map, in the order it visits
  them.  An entry the engine refuses leaves the remap table as it is.\<close>

fun recreateStylesLoop :: "Extern \<Rightarrow> (int \<times> StyleDetails) list \<Rightarrow> Recreator \<Rightarrow> Recreator" where
  "recreateStylesLoop X [] r = r"
| "recreateStylesLoop X ((oldID, styleMeta) # rest) r =
     (let style = buildStyle styleMeta;
          (res, f) = NewStyle X (file' r) style;
          r = r\<lparr>file' := f\<rparr>;
          r = (case res of
                 Some newID \<Rightarrow> r\<lparr>styleMap := (styleMap r)(oldID \<mapsto> newID)\<rparr>
               | None \<Rightarrow> r)
      in recreateStylesLoop X rest r)"

definition recreateStyles :: "Extern \<Rightarrow> Recreator \<Rightarrow> error option \<times> Recreator" where
  "recreateStyles X r = (None, recreateStylesLoop X (Styles (metadata r)) r)"

subsection \<open>Cells\<close>

text \<open>The type switch of \<open>recreateCells\<close> on a value that is not nil.  The errors of the
  writes are dropped, as the code drops them.\<close>

definition coerce :: "Extern \<Rightarrow> File \<Rightarrow> string \<Rightarrow> string \<Rightarrow> string \<Rightarrow> File" where
  "coerce X f sheetName address strVal =
     (case ParseFloat X strVal of
        Some floatVal \<Rightarrow> snd (SetCellFloat X f sheetName address floatVal (-1) 64)
      | None \<Rightarrow> snd (SetCellValue X f sheetName address (VString strVal)))"

definition writeValue :: "Extern \<Rightarrow> File \<Rightarrow> string \<Rightarrow> string \<Rightarrow> CellValue \<Rightarrow> File" where
  "writeValue X f sheetName address cv =
     (case cv of
        VFloat32 v \<Rightarrow> snd (SetCellFloat X f sheetName address (Float32to64 X v) (-1) 64)
      | VFloat64 v \<Rightarrow> snd (SetCellFloat X f sheetName address v (-1) 64)
      | VInt v \<Rightarrow> snd (SetCellInt X f sheetName address v)
      | VInt8 v \<Rightarrow> snd (SetCellInt X f sheetName address (scast v))
      | VInt16 v \<Rightarrow> snd (SetCellInt X f sheetName address (scast v))
      | VInt32 v \<Rightarrow> snd (SetCellInt X f sheetName address (scast v))
      | VBool v \<Rightarrow> snd (SetCellBool X f sheetName address v)
      | VTime v \<Rightarrow> snd (SetCellValue X f sheetName address (VTime v))
      | VString s \<Rightarrow> coerce X f sheetName address s
      | VOther s \<Rightarrow> coerce X f sheetName address s)"

text \<open>What the type switch of \<open>writeValue\<close> leaves in the cell it addresses.\<close>

definition written :: "Extern \<Rightarrow> CellValue \<Rightarrow> CellContent" where
  "written X cv =
     (case cv of
        VFloat32 v \<Rightarrow> Number (Float32to64 X v) (-1) 64
      | VFloat64 v \<Rightarrow> Number v (-1) 64
      | VInt v \<Rightarrow> Integer v
      | VInt8 v \<Rightarrow> Integer (scast v)
      | VInt16 v \<Rightarrow> Integer (scast v)
      | VInt32 v \<Rightarrow> Integer (scast v)
      | VBool v \<Rightarrow> Boolean v
      | VTime v \<Rightarrow> DateTime v
      | VString s \<Rightarrow> (case ParseFloat X s of Some x \<Rightarrow> Number x (-1) 64 | None \<Rightarrow> Text s)
      | VOther s \<Rightarrow> (case ParseFloat X s of Some x \<Rightarrow> Number x (-1) 64 | None \<Rightarrow> Text s))"

text \<open>One pass of the loop of \<open>recreateCells\<close>, in the three steps the code marks:
  "Set cell value or formula", "Apply style" and "Set hyperlink".  Only the formula write
  can fail the pass; its error ends the loop.\<close>

definition setValueOrFormula :: "Extern \<Rightarrow> Recreator \<Rightarrow> string \<Rightarrow> CellMetadata \<Rightarrow> error option \<times> File" where
  "setValueOrFormula X r sheetName cell =
     (if Formula cell \<noteq> [] \<and> PreserveFormulas (options r)
      then SetCellFormula X (file' r) sheetName (Address cell) (Formula cell)
      else case Value cell of
             Some cv \<Rightarrow> (None, writeValue X (file' r) sheetName (Address cell) cv)
           | None \<Rightarrow> (None, file' r))"

definition applyStyle :: "Extern \<Rightarrow> Recreator \<Rightarrow> File \<Rightarrow> string \<Rightarrow> CellMetadata \<Rightarrow> File" where
  "applyStyle X r f sheetName cell =
     (if PreserveStyles (options r) \<and> StyleID cell \<noteq> 0
      then (case styleMap r (StyleID cell) of
              Some newStyleID \<Rightarrow>
                snd (SetCellStyle X f sheetName (Address cell) (Address cell) newStyleID)
            | None \<Rightarrow> f)
      else f)"

definition setHyperlink :: "Extern \<Rightarrow> File \<Rightarrow> string \<Rightarrow> CellMetadata \<Rightarrow> File" where
  "setHyperlink X f sheetName cell =
     (case Hyperlink cell of
        Some h \<Rightarrow> snd (SetCellHyperLink X f sheetName (Address cell) (Link h) ''Location'')
      | None \<Rightarrow> f)"

definition recreateCell :: "Extern \<Rightarrow> Recreator \<Rightarrow> string \<Rightarrow> CellMetadata \<Rightarrow> error option \<times> Recreator" where
  "recreateCell X r sheetName cell =
     (if SkipEmptyCells (options r) \<and> Value cell = None \<and> Formula cell = [] then (None, r)
      else
        case setValueOrFormula X r sheetName cell of
          (Some err, f) \<Rightarrow> (Some err, r\<lparr>file' := f\<rparr>)
        | (None, f) \<Rightarrow>
            (None, r\<lparr>file' := setHyperlink X (applyStyle X r f sheetName cell) sheetName cell\<rparr>))"

fun recreateCells :: "Extern \<Rightarrow> Recreator \<Rightarrow> string \<Rightarrow> CellMetadata list \<Rightarrow> error option \<times> Recreator" where
  "recreateCells X r sheetName [] = (None, r)"
| "recreateCells X r sheetName (cell # cells) =
     (case recreateCell X r sheetName cell of
        (Some err, r') \<Rightarrow> (Some err, r')
      | (None, r') \<Rightarrow> recreateCells X r' sheetName cells)"


subsection \<open>Sheets\<close>

definition recreateDataValidation :: "Recreator \<Rightarrow> string \<Rightarrow> DataValidation \<Rightarrow> error option \<times> Recreator" where
  "recreateDataValidation r sheetName dv =
     (let validation = \<lparr>XType = ValidationType dv, XOperator = Operator dv,
                          XFormula1 = Formula1 dv, XFormula2 = Formula2 dv,
                          ShowErrorMessage = ShowError dv, XErrorTitle = ErrorTitle dv,
                          XError = ErrorMessage dv, Sqref = Range dv\<rparr>;
          (err, f) = AddDataValidation (file' r) sheetName validation
      in (err, r\<lparr>file' := f\<rparr>))"

definition recreateSheetProtection :: "Recreator \<Rightarrow> string \<Rightarrow> SheetProtection \<Rightarrow> error option \<times> Recreator" where
  "recreateSheetProtection r sheetName protection =
     (let editObjects = EditObjects protection;
          editScenarios = EditScenarios protection;
          selectLockedCells = SelectLockedCells protection;
          selectUnlockedCells = SelectUnlockedCells protection;
          opts = \<lparr>OptPassword = Password protection, OptEditObjects = editObjects,
                    OptEditScenarios = editScenarios, OptSelectLockedCells = selectLockedCells,
                    OptSelectUnlockedCells = selectUnlockedCells\<rparr>;
          (err, f) = ProtectSheet (file' r) sheetName opts
      in (err, r\<lparr>file' := f\<rparr>))"

text \<open>\<open>recreateSheet\<close>, by its steps.  The name the sheet is created under is the local
  \<open>sheetName\<close> of the code.\<close>

definition sheetNameOf :: "Options \<Rightarrow> SheetMetadata \<Rightarrow> string" where
  "sheetNameOf opts sheetMeta =
     (if Name sheetMeta = [] then DefaultSheetName opts @ showInt (sint (Index sheetMeta + 1))
      else Name sheetMeta)"

text \<open>"Set visibility", "Set column widths", "Set row heights": every call is made and its
  error dropped.\<close>

definition applyGeometry :: "File \<Rightarrow> string \<Rightarrow> SheetMetadata \<Rightarrow> File" where
  "applyGeometry f sheetName sheetMeta =
     (let f = snd (SetSheetVisible f sheetName (Visible sheetMeta));
          f = foldl (\<lambda>f. \<lambda>(col, width). snd (SetColWidth f sheetName col col width)) f
                (ColWidths sheetMeta);
          f = foldl (\<lambda>f. \<lambda>(row, height). snd (SetRowHeight f sheetName row height)) f
                (RowHeights sheetMeta)
      in f)"

text \<open>"Recreate merged cells", "Recreate data validations", "Recreate sheet protection":
  again no error is looked at.\<close>

definition finishSheet :: "Recreator \<Rightarrow> string \<Rightarrow> SheetMetadata \<Rightarrow> Recreator" where
  "finishSheet r sheetName sheetMeta =
     (let f = foldl (\<lambda>f merge. snd (MergeCell f sheetName (StartCell merge) (EndCell merge)))
                (file' r) (MergedCells sheetMeta);
          r = r\<lparr>file' := f\<rparr>;
          r = (if PreserveDataValidation (options r)
               then foldl (\<lambda>r dv. snd (recreateDataValidation r sheetName dv)) r
                      (DataValidations sheetMeta)
               else r);
          r = (case SheetProtect sheetMeta of
                 Some protection \<Rightarrow>
                   if Protected protection
                   then snd (recreateSheetProtection r sheetName protection)
                   else r
               | None \<Rightarrow> r)
      in r)"

text \<open>Only the errors of \<open>NewSheet\<close> and of \<open>recreateCells\<close> end \<open>recreateSheet\<close>.\<close>

definition recreateSheet :: "Extern \<Rightarrow> Recreator \<Rightarrow> SheetMetadata \<Rightarrow> error option \<times> Recreator" where
  "recreateSheet X r sheetMeta =
     (let sheetName = sheetNameOf (options r) sheetMeta in
      case NewSheet X (file' r) sheetName of
        (Inl err, f) \<Rightarrow> (Some err, r\<lparr>file' := f\<rparr>)
      | (Inr index, f) \<Rightarrow>
          (case recreateCells X (r\<lparr>file' := applyGeometry f sheetName sheetMeta\<rparr>) sheetName
                  (Cells sheetMeta) of
             (Some err, r) \<Rightarrow> (Some err, r)
           | (None, r) \<Rightarrow> (None, finishSheet r sheetName sheetMeta)))"

definition recreateDefinedName :: "DefinedName \<Rightarrow> XDefinedName" where
  "recreateDefinedName name = \<lparr>XName = DefName name, XRefersTo = RefersTo name, XScope = Scope name\<rparr>"

fun recreateDefinedNamesLoop :: "Extern \<Rightarrow> Recreator \<Rightarrow> DefinedName list \<Rightarrow> error option \<times> Recreator" where
  "recreateDefinedNamesLoop X r [] = (None, r)"
| "recreateDefinedNamesLoop X r (name # names) =
     (case SetDefinedName X (file' r) (recreateDefinedName name) of
        (Some err, f) \<Rightarrow> (Some err, r\<lparr>file' := f\<rparr>)
      | (None, f) \<Rightarrow> recreateDefinedNamesLoop X (r\<lparr>file' := f\<rparr>) names)"

definition recreateDefinedNames :: "Extern \<Rightarrow> Recreator \<Rightarrow> error option \<times> Recreator" where
  "recreateDefinedNames X r = recreateDefinedNamesLoop X r (DefinedNames (metadata r))"

subsection \<open>\<open>Recreate\<close>\<close>

text \<open>The loop of \<open>Recreate\<close> over the sheets: the first error ends it.\<close>

fun recreateSheets :: "Extern \<Rightarrow> Recreator \<Rightarrow> SheetMetadata list \<Rightarrow> error option \<times> Recreator" where
  "recreateSheets X r [] = (None, r)"
| "recreateSheets X r (sheetMeta # rest) =
     (case recreateSheet X r sheetMeta of
        (Some err, r') \<Rightarrow> (Some (Errorf (''failed to recreate sheet '' @ Name sheetMeta) err), r')
      | (None, r') \<Rightarrow> recreateSheets X r' rest)"

text \<open>The last loop of \<open>Recreate\<close>: the first sheet that is visible is made active, by the
  index it declares, and the loop ends.\<close>

fun activateFirstVisible :: "File \<Rightarrow> SheetMetadata list \<Rightarrow> File" where
  "activateFirstVisible f [] = f"
| "activateFirstVisible f (sheet # rest) =
     (if Visible sheet then SetActiveSheet f (sint (Index sheet))
      else activateFirstVisible f rest)"

definition Recreate :: "Extern \<Rightarrow> Recreator \<Rightarrow> error option \<times> Recreator" where
  "Recreate X r =
     (case recreateDocumentProperties X r of
        (Some err, r) \<Rightarrow> (Some (Errorf ''failed to recreate document properties'' err), r)
      | (None, r) \<Rightarrow>
          (case (if PreserveStyles (options r) \<and> length (Styles (metadata r)) > 0
                 then recreateStyles X r else (None, r)) of
             (Some err, r) \<Rightarrow> (Some (Errorf ''failed to recreate styles'' err), r)
           | (None, r) \<Rightarrow>
               let r = (if length (Sheets (metadata r)) > 0
                        then r\<lparr>file' := DeleteSheet (file' r) ''Sheet1''\<rparr> else r)
               in (case recreateSheets X r (Sheets (metadata r)) of
                     (Some err, r) \<Rightarrow> (Some err, r)
                   | (None, r) \<Rightarrow>
                       (case (if PreserveFormulas (options r) \<and> length (DefinedNames (metadata r)) > 0
                              then recreateDefinedNames X r else (None, r)) of
                          (Some err, r) \<Rightarrow> (Some (Errorf ''failed to recreate defined names'' err), r)
                        | (None, r) \<Rightarrow>
                            (None, r\<lparr>file' := activateFirstVisible (file' r) (Sheets (metadata r))\<rparr>)))))"

definition GetFile :: "Recreator \<Rightarrow> File" where
  "GetFile r = file' r"


section \<open>Observations\<close>

text \<open>The part of a workbook the claims look at: the sheets in their order, the active
  sheet, the style table, what the cells hold, and the defined names.\<close>

definition core :: "File \<Rightarrow> string list \<times> nat \<times> Style list \<times> (cellref \<rightharpoonup> CellContent) \<times>
    (cellref \<rightharpoonup> string) \<times> (cellref \<rightharpoonup> int) \<times> (cellref \<rightharpoonup> string \<times> string) \<times> XDefinedName list" where
  "core f = (SheetList f, ActiveSheet f, StyleTable f, CellValues f, CellFormulas f, CellStyles f,
     CellLinks f, Defined f)"

text \<open>The sheet list after \<open>NewSheet\<close> for a name the engine accepts.\<close>

definition appendNew :: "string list \<Rightarrow> string \<Rightarrow> string list" where
  "appendNew sheets n = (if n \<in> set sheets then sheets else sheets @ [n])"

text \<open>The recreator after each phase of \<open>Recreate\<close>: after the document properties,
  the styles, the removal of the default sheet, the sheets, and the defined names.\<close>

definition afterProps :: "Extern \<Rightarrow> Recreator \<Rightarrow> Recreator" where
  "afterProps X r = snd (recreateDocumentProperties X r)"

definition afterStyles :: "Extern \<Rightarrow> Recreator \<Rightarrow> Recreator" where
  "afterStyles X r =
     (if PreserveStyles (options r) \<and> length (Styles (metadata r)) > 0
      then snd (recreateStyles X (afterProps X r)) else afterProps X r)"

definition afterDelete :: "Extern \<Rightarrow> Recreator \<Rightarrow> Recreator" where
  "afterDelete X r =
     (if length (Sheets (metadata r)) > 0
      then (afterStyles X r)\<lparr>file' := DeleteSheet (file' (afterStyles X r)) ''Sheet1''\<rparr>
      else afterStyles X r)"

definition afterSheets :: "Extern \<Rightarrow> Recreator \<Rightarrow> Recreator" where
  "afterSheets X r = snd (recreateSheets X (afterDelete X r) (Sheets (metadata r)))"

definition afterNames :: "Extern \<Rightarrow> Recreator \<Rightarrow> Recreator" where
  "afterNames X r =
     (if PreserveFormulas (options r) \<and> length (DefinedNames (metadata r)) > 0
      then snd (recreateDefinedNames X (afterSheets X r)) else afterSheets X r)"

text \<open>
  Two runs are compared by what a reader of the two workbooks sees: the sheets in their
  order, the active sheet, the value, formula and hyperlink of every cell, the defined
  names, and for every cell the style its style identifier stands for in the style table
  of its workbook.
\<close>

definition styleOf :: "File \<Rightarrow> int \<Rightarrow> Style" where
  "styleOf f n = StyleTable f ! nat n"

definition cellStyle :: "File \<Rightarrow> cellref \<Rightarrow> Style option" where
  "cellStyle f k = map_option (styleOf f) (CellStyles f k)"

definition observed :: "File \<Rightarrow> string list \<times> nat \<times> (cellref \<rightharpoonup> CellContent) \<times>
    (cellref \<rightharpoonup> string) \<times> (cellref \<rightharpoonup> string \<times> string) \<times> (cellref \<rightharpoonup> Style) \<times> XDefinedName list" where
  "observed f = (SheetList f, ActiveSheet f, CellValues f, CellFormulas f, CellLinks f,
     cellStyle f, Defined f)"

text \<open>The style an old identifier is remapped to; a remap table all of whose new
  identifiers the engine knows; and two recreators that differ in nothing a later step
  of the run can tell.\<close>

definition remapped :: "Recreator \<Rightarrow> int \<Rightarrow> Style option" where
  "remapped r oldID = map_option (styleOf (file' r)) (styleMap r oldID)"

definition knownIDs :: "Recreator \<Rightarrow> bool" where
  "knownIDs r \<longleftrightarrow>
     (\<forall>oldID n. styleMap r oldID = Some n \<longrightarrow> 0 \<le> n \<and> n < int (length (StyleTable (file' r))))"

definition sameRun :: "Recreator \<Rightarrow> Recreator \<Rightarrow> bool" where
  "sameRun r r' \<longleftrightarrow>
     options r = options r' \<and> observed (file' r) = observed (file' r') \<and>
     remapped r = remapped r' \<and> knownIDs r \<and> knownIDs r'"

text \<open>
  The same metadata document, read twice: the two differ at most in the order in which
  the entries of the Go maps (\<open>Styles\<close>, and \<open>ColWidths\<close> and \<open>RowHeights\<close> of a sheet) come.
\<close>

definition sameSheet :: "SheetMetadata \<Rightarrow> SheetMetadata \<Rightarrow> bool" where
  "sameSheet a b \<longleftrightarrow>
     Index a = Index b \<and> Name a = Name b \<and> Visible a = Visible b \<and>
     set (ColWidths a) = set (ColWidths b) \<and> set (RowHeights a) = set (RowHeights b) \<and>
     Cells a = Cells b \<and> MergedCells a = MergedCells b \<and>
     DataValidations a = DataValidations b \<and> SheetProtect a = SheetProtect b"

definition sameDocument :: "Metadata \<Rightarrow> Metadata \<Rightarrow> bool" where
  "sameDocument a b \<longleftrightarrow>
     Properties a = Properties b \<and> list_all2 sameSheet (Sheets a) (Sheets b) \<and>
     set (Styles a) = set (Styles b) \<and>
     distinct (map fst (Styles a)) \<and> distinct (map fst (Styles b)) \<and>
     DefinedNames a = DefinedNames b"

section \<open>An instance of the parameter\<close>

text \<open>
  A small engine and runtime on which the definitions can be evaluated: it knows the cell
  references of a 3 by 3 block, takes every sheet name of 1 to 31 characters, refuses a
  style with a negative number format and a defined name without a name, and parses the
  one text \<open>42.5\<close> as a number (\<open>0x4045400000000000\<close> is the 64-bit pattern of 42.5).
\<close>

definition testExtern :: Extern where
  "testExtern = \<lparr>
     ParseFloat = map_of [(''42.5'', 0x4045400000000000)],
     Float32to64 = (\<lambda>v. 0),
     CellNameToCoordinates = map_of
       [(''A1'', (1, 1)), (''B1'', (2, 1)), (''C1'', (3, 1)),
        (''A2'', (1, 2)), (''B2'', (2, 2)), (''C2'', (3, 2)),
        (''A3'', (1, 3)), (''B3'', (2, 3)), (''C3'', (3, 3))],
     checkSheetName = (\<lambda>n. n \<noteq> [] \<and> length n \<le> 31),
     acceptStyle = (\<lambda>s. 0 \<le> NumFmt s),
     acceptDocProps = (\<lambda>p. True),
     acceptDefinedName = (\<lambda>d. XName d \<noteq> [])\<rparr>"

definition emptyProperties :: DocProperties where
  "emptyProperties = \<lparr>Title = [], Subject = [], Creator = [], Keywords = [], Description = [],
     LastModifiedBy = [], Category = [], Version = [], Created = [], Modified = []\<rparr>"


definition emptyCell :: CellMetadata where
  "emptyCell = \<lparr>Address = [], Value = None, Formula = [], StyleID = 0, Hyperlink = None\<rparr>"

definition emptySheet :: SheetMetadata where
  "emptySheet = \<lparr>Index = 0, Name = [], Visible = False, ColWidths = [], RowHeights = [],
     Cells = [], MergedCells = [], DataValidations = [], SheetProtect = None\<rparr>"

definition emptyMetadata :: Metadata where
  "emptyMetadata = \<lparr>Properties = emptyProperties, Sheets = [], Styles = [], DefinedNames = []\<rparr>"



definition oneSheet :: Metadata where
  "oneSheet = emptyMetadata\<lparr>Sheets := [emptySheet\<lparr>Index := 0, Name := ''Data'', Visible := True\<rparr>]\<rparr>"



section \<open>What the engine's operations change\<close>

lemma cellKey_frame:
  "SheetList f' = SheetList f \<Longrightarrow> cellKey X f' sheet cell = cellKey X f sheet cell"
  by (simp add: cellKey_def)

lemma setContent_fields [simp]:
  "SheetList (snd (setContent X f s c v)) = SheetList f"
  "ActiveSheet (snd (setContent X f s c v)) = ActiveSheet f"
  "StyleTable (snd (setContent X f s c v)) = StyleTable f"
  "Defined (snd (setContent X f s c v)) = Defined f"
  "CellFormulas (snd (setContent X f s c v)) = CellFormulas f"
  "CellStyles (snd (setContent X f s c v)) = CellStyles f"
  "CellLinks (snd (setContent X f s c v)) = CellLinks f"
  by (simp_all add: setContent_def split: sum.splits)


lemma SetCellStyle_fields [simp]:
  "SheetList (snd (SetCellStyle X f s a b n)) = SheetList f"
  "ActiveSheet (snd (SetCellStyle X f s a b n)) = ActiveSheet f"
  "StyleTable (snd (SetCellStyle X f s a b n)) = StyleTable f"
  "Defined (snd (SetCellStyle X f s a b n)) = Defined f"
  "CellFormulas (snd (SetCellStyle X f s a b n)) = CellFormulas f"
  "CellValues (snd (SetCellStyle X f s a b n)) = CellValues f"
  "CellLinks (snd (SetCellStyle X f s a b n)) = CellLinks f"
  by (simp_all add: SetCellStyle_def split: sum.splits prod.splits)

lemma SetCellHyperLink_fields [simp]:
  "SheetList (snd (SetCellHyperLink X f s a l t)) = SheetList f"
  "ActiveSheet (snd (SetCellHyperLink X f s a l t)) = ActiveSheet f"
  "StyleTable (snd (SetCellHyperLink X f s a l t)) = StyleTable f"
  "Defined (snd (SetCellHyperLink X f s a l t)) = Defined f"
  "CellFormulas (snd (SetCellHyperLink X f s a l t)) = CellFormulas f"
  "CellValues (snd (SetCellHyperLink X f s a l t)) = CellValues f"
  "CellStyles (snd (SetCellHyperLink X f s a l t)) = CellStyles f"
  by (simp_all add: SetCellHyperLink_def split: sum.splits)

lemma SetCellFormula_fields [simp]:
  "SheetList (snd (SetCellFormula X f s a l)) = SheetList f"
  "ActiveSheet (snd (SetCellFormula X f s a l)) = ActiveSheet f"
  "StyleTable (snd (SetCellFormula X f s a l)) = StyleTable f"
  "Defined (snd (SetCellFormula X f s a l)) = Defined f"
  "CellLinks (snd (SetCellFormula X f s a l)) = CellLinks f"
  "CellValues (snd (SetCellFormula X f s a l)) = CellValues f"
  "CellStyles (snd (SetCellFormula X f s a l)) = CellStyles f"
  by (simp_all add: SetCellFormula_def split: sum.splits)


lemma typed_setters_fields [simp]:
  "SheetList (snd (SetCellFloat X f s c x p b)) = SheetList f"
  "CellFormulas (snd (SetCellFloat X f s c x p b)) = CellFormulas f"
  "CellStyles (snd (SetCellFloat X f s c x p b)) = CellStyles f"
  "CellLinks (snd (SetCellFloat X f s c x p b)) = CellLinks f"
  "StyleTable (snd (SetCellFloat X f s c x p b)) = StyleTable f"
  "Defined (snd (SetCellFloat X f s c x p b)) = Defined f"
  "ActiveSheet (snd (SetCellFloat X f s c x p b)) = ActiveSheet f"
  "SheetList (snd (SetCellInt X f s c i)) = SheetList f"
  "CellFormulas (snd (SetCellInt X f s c i)) = CellFormulas f"
  "CellStyles (snd (SetCellInt X f s c i)) = CellStyles f"
  "CellLinks (snd (SetCellInt X f s c i)) = CellLinks f"
  "StyleTable (snd (SetCellInt X f s c i)) = StyleTable f"
  "Defined (snd (SetCellInt X f s c i)) = Defined f"
  "ActiveSheet (snd (SetCellInt X f s c i)) = ActiveSheet f"
  "SheetList (snd (SetCellBool X f s c t)) = SheetList f"
  "CellFormulas (snd (SetCellBool X f s c t)) = CellFormulas f"
  "CellStyles (snd (SetCellBool X f s c t)) = CellStyles f"
  "CellLinks (snd (SetCellBool X f s c t)) = CellLinks f"
  "StyleTable (snd (SetCellBool X f s c t)) = StyleTable f"
  "Defined (snd (SetCellBool X f s c t)) = Defined f"
  "ActiveSheet (snd (SetCellBool X f s c t)) = ActiveSheet f"
  by (simp_all add: SetCellFloat_def SetCellInt_def SetCellBool_def)

lemma SetCellValue_fields [simp]:
  "SheetList (snd (SetCellValue X f s c v)) = SheetList f"
  "CellFormulas (snd (SetCellValue X f s c v)) = CellFormulas f"
  "CellStyles (snd (SetCellValue X f s c v)) = CellStyles f"
  "CellLinks (snd (SetCellValue X f s c v)) = CellLinks f"
  "StyleTable (snd (SetCellValue X f s c v)) = StyleTable f"
  "Defined (snd (SetCellValue X f s c v)) = Defined f"
  "ActiveSheet (snd (SetCellValue X f s c v)) = ActiveSheet f"
  by (simp_all add: SetCellValue_def split: CellValue.splits)

lemma writeValue_fields [simp]:
  "SheetList (writeValue X f s c v) = SheetList f"
  "CellFormulas (writeValue X f s c v) = CellFormulas f"
  "CellStyles (writeValue X f s c v) = CellStyles f"
  "CellLinks (writeValue X f s c v) = CellLinks f"
  "StyleTable (writeValue X f s c v) = StyleTable f"
  "Defined (writeValue X f s c v) = Defined f"
  "ActiveSheet (writeValue X f s c v) = ActiveSheet f"
  by (simp_all add: writeValue_def coerce_def split: CellValue.splits option.splits)



lemma foldl_inv:
  assumes "\<And>a x. P a \<Longrightarrow> P (f a x)" and "P a"
  shows "P (foldl f a xs)"
  using assms(2) by (induction xs arbitrary: a) (auto intro: assms(1))

lemma SetSheetVisible_fields [simp]:
  "SheetList (snd (SetSheetVisible f s v)) = SheetList f"
  "ActiveSheet (snd (SetSheetVisible f s v)) = ActiveSheet f"
  "StyleTable (snd (SetSheetVisible f s v)) = StyleTable f"
  "CellValues (snd (SetSheetVisible f s v)) = CellValues f"
  "CellFormulas (snd (SetSheetVisible f s v)) = CellFormulas f"
  "CellStyles (snd (SetSheetVisible f s v)) = CellStyles f"
  "CellLinks (snd (SetSheetVisible f s v)) = CellLinks f"
  "Defined (snd (SetSheetVisible f s v)) = Defined f"
  by (simp_all add: SetSheetVisible_def)

lemma SetColWidth_fields [simp]:
  "SheetList (snd (SetColWidth f s a b w)) = SheetList f"
  "ActiveSheet (snd (SetColWidth f s a b w)) = ActiveSheet f"
  "StyleTable (snd (SetColWidth f s a b w)) = StyleTable f"
  "CellValues (snd (SetColWidth f s a b w)) = CellValues f"
  "CellFormulas (snd (SetColWidth f s a b w)) = CellFormulas f"
  "CellStyles (snd (SetColWidth f s a b w)) = CellStyles f"
  "CellLinks (snd (SetColWidth f s a b w)) = CellLinks f"
  "Defined (snd (SetColWidth f s a b w)) = Defined f"
  by (simp_all add: SetColWidth_def)

lemma SetRowHeight_fields [simp]:
  "SheetList (snd (SetRowHeight f s a h)) = SheetList f"
  "ActiveSheet (snd (SetRowHeight f s a h)) = ActiveSheet f"
  "StyleTable (snd (SetRowHeight f s a h)) = StyleTable f"
  "CellValues (snd (SetRowHeight f s a h)) = CellValues f"
  "CellFormulas (snd (SetRowHeight f s a h)) = CellFormulas f"
  "CellStyles (snd (SetRowHeight f s a h)) = CellStyles f"
  "CellLinks (snd (SetRowHeight f s a h)) = CellLinks f"
  "Defined (snd (SetRowHeight f s a h)) = Defined f"
  by (simp_all add: SetRowHeight_def)

lemma MergeCell_fields [simp]:
  "SheetList (snd (MergeCell f s a b)) = SheetList f"
  "ActiveSheet (snd (MergeCell f s a b)) = ActiveSheet f"
  "StyleTable (snd (MergeCell f s a b)) = StyleTable f"
  "CellValues (snd (MergeCell f s a b)) = CellValues f"
  "CellFormulas (snd (MergeCell f s a b)) = CellFormulas f"
  "CellStyles (snd (MergeCell f s a b)) = CellStyles f"
  "CellLinks (snd (MergeCell f s a b)) = CellLinks f"
  "Defined (snd (MergeCell f s a b)) = Defined f"
  by (simp_all add: MergeCell_def)

lemma AddDataValidation_fields [simp]:
  "SheetList (snd (AddDataValidation f s dv)) = SheetList f"
  "ActiveSheet (snd (AddDataValidation f s dv)) = ActiveSheet f"
  "StyleTable (snd (AddDataValidation f s dv)) = StyleTable f"
  "CellValues (snd (AddDataValidation f s dv)) = CellValues f"
  "CellFormulas (snd (AddDataValidation f s dv)) = CellFormulas f"
  "CellStyles (snd (AddDataValidation f s dv)) = CellStyles f"
  "CellLinks (snd (AddDataValidation f s dv)) = CellLinks f"
  "Defined (snd (AddDataValidation f s dv)) = Defined f"
  by (simp_all add: AddDataValidation_def)

lemma ProtectSheet_fields [simp]:
  "SheetList (snd (ProtectSheet f s p)) = SheetList f"
  "ActiveSheet (snd (ProtectSheet f s p)) = ActiveSheet f"
  "StyleTable (snd (ProtectSheet f s p)) = StyleTable f"
  "CellValues (snd (ProtectSheet f s p)) = CellValues f"
  "CellFormulas (snd (ProtectSheet f s p)) = CellFormulas f"
  "CellStyles (snd (ProtectSheet f s p)) = CellStyles f"
  "CellLinks (snd (ProtectSheet f s p)) = CellLinks f"
  "Defined (snd (ProtectSheet f s p)) = Defined f"
  by (simp_all add: ProtectSheet_def)

lemma NewSheet_fields [simp]:
  "ActiveSheet (snd (NewSheet X f s)) = ActiveSheet f"
  "StyleTable (snd (NewSheet X f s)) = StyleTable f"
  "CellValues (snd (NewSheet X f s)) = CellValues f"
  "CellFormulas (snd (NewSheet X f s)) = CellFormulas f"
  "CellStyles (snd (NewSheet X f s)) = CellStyles f"
  "CellLinks (snd (NewSheet X f s)) = CellLinks f"
  "Defined (snd (NewSheet X f s)) = Defined f"
  by (simp_all add: NewSheet_def)

lemma NewSheet_SheetList:
  "SheetList (snd (NewSheet X f s)) =
     (if checkSheetName X s \<and> s \<notin> set (SheetList f) then SheetList f @ [s] else SheetList f)"
  "isl (fst (NewSheet X f s)) \<longleftrightarrow> \<not> checkSheetName X s"
  by (simp_all add: NewSheet_def)

lemma SetCellStyle_single:
  assumes "cellKey X f s a = Inr k" "0 \<le> n" "n < int (length (StyleTable f))"
  shows "SetCellStyle X f s a a n = (None, f\<lparr>CellStyles := (CellStyles f)(k \<mapsto> n)\<rparr>)"
proof -
  obtain s' c r where k: "k = (s', c, r)" by (cases k) auto
  from assms(1) have s': "s' = s" by (auto simp: cellKey_def k split: if_splits option.splits)
  have "(\<lambda>(n', c', r'). if n' = s \<and> min c c \<le> c' \<and> c' \<le> max c c \<and> min r r \<le> r' \<and> r' \<le> max r r
           then Some n else CellStyles f (n', c', r')) = (CellStyles f)(k \<mapsto> n)"
    by (auto simp: fun_eq_iff k s')
  with assms show ?thesis
    by (simp add: SetCellStyle_def k s')
qed

lemma SetCellStyle_bad_id:
  "n < 0 \<or> int (length (StyleTable f)) \<le> n \<Longrightarrow> snd (SetCellStyle X f s a b n) = f"
  by (auto simp: SetCellStyle_def split: sum.splits prod.splits)

lemma SetCellStyle_bad_key:
  "cellKey X f s a = Inl e \<Longrightarrow> snd (SetCellStyle X f s a b n) = f"
  by (auto simp: SetCellStyle_def split: sum.splits prod.splits)

lemma SetCellHyperLink_Location:
  "cellKey X f s a = Inr k \<Longrightarrow>
   SetCellHyperLink X f s a l ''Location'' = (None, f\<lparr>CellLinks := (CellLinks f)(k \<mapsto> (l, ''Location''))\<rparr>)"
  by (simp add: SetCellHyperLink_def)

lemma setValueOrFormula_fields [simp]:
  "SheetList (snd (setValueOrFormula X r s c)) = SheetList (file' r)"
  "StyleTable (snd (setValueOrFormula X r s c)) = StyleTable (file' r)"
  "Defined (snd (setValueOrFormula X r s c)) = Defined (file' r)"
  "ActiveSheet (snd (setValueOrFormula X r s c)) = ActiveSheet (file' r)"
  "CellStyles (snd (setValueOrFormula X r s c)) = CellStyles (file' r)"
  "CellLinks (snd (setValueOrFormula X r s c)) = CellLinks (file' r)"
  by (simp_all add: setValueOrFormula_def split: option.splits)

lemma applyStyle_fields [simp]:
  "SheetList (applyStyle X r f s c) = SheetList f"
  "StyleTable (applyStyle X r f s c) = StyleTable f"
  "Defined (applyStyle X r f s c) = Defined f"
  "ActiveSheet (applyStyle X r f s c) = ActiveSheet f"
  "CellValues (applyStyle X r f s c) = CellValues f"
  "CellFormulas (applyStyle X r f s c) = CellFormulas f"
  "CellLinks (applyStyle X r f s c) = CellLinks f"
  by (simp_all add: applyStyle_def split: option.splits)

lemma setHyperlink_fields [simp]:
  "SheetList (setHyperlink X f s c) = SheetList f"
  "StyleTable (setHyperlink X f s c) = StyleTable f"
  "Defined (setHyperlink X f s c) = Defined f"
  "ActiveSheet (setHyperlink X f s c) = ActiveSheet f"
  "CellValues (setHyperlink X f s c) = CellValues f"
  "CellFormulas (setHyperlink X f s c) = CellFormulas f"
  "CellStyles (setHyperlink X f s c) = CellStyles f"
  by (simp_all add: setHyperlink_def split: option.splits)

lemma recreateCell_skip:
  "SkipEmptyCells (options r) \<Longrightarrow> Value cell = None \<Longrightarrow> Formula cell = [] \<Longrightarrow>
   recreateCell X r sheetName cell = (None, r)"
  by (simp add: recreateCell_def)

lemma recreateCell_cases:
  obtains (skip) "SkipEmptyCells (options r)" "Value c = None" "Formula c = []"
      "recreateCell X r s c = (None, r)"
  | (failed) e f where "setValueOrFormula X r s c = (Some e, f)"
      "recreateCell X r s c = (Some e, r\<lparr>file' := f\<rparr>)"
  | (written) f where "setValueOrFormula X r s c = (None, f)"
      "recreateCell X r s c = (None, r\<lparr>file' := setHyperlink X (applyStyle X r f s c) s c\<rparr>)"
proof (cases "SkipEmptyCells (options r) \<and> Value c = None \<and> Formula c = []")
  case True
  then show ?thesis using skip by (simp add: recreateCell_def)
next
  case False
  then have unfold: "recreateCell X r s c =
      (case setValueOrFormula X r s c of
         (Some err, f) \<Rightarrow> (Some err, r\<lparr>file' := f\<rparr>)
       | (None, f) \<Rightarrow> (None, r\<lparr>file' := setHyperlink X (applyStyle X r f s c) s c\<rparr>))"
    unfolding recreateCell_def by (rule if_not_P)
  obtain e f where ef: "setValueOrFormula X r s c = (e, f)" by (cases "setValueOrFormula X r s c")
  show ?thesis
  proof (cases e)
    case None
    then have "recreateCell X r s c = (None, r\<lparr>file' := setHyperlink X (applyStyle X r f s c) s c\<rparr>)"
      by (simp add: unfold ef)
    with ef None show ?thesis using written by blast
  next
    case (Some err)
    then have "recreateCell X r s c = (Some err, r\<lparr>file' := f\<rparr>)"
      by (simp add: unfold ef)
    with ef Some show ?thesis using failed by blast
  qed
qed

lemma recreateCell_frame [simp]:
  "metadata (snd (recreateCell X r s c)) = metadata r"
  "options (snd (recreateCell X r s c)) = options r"
  "styleMap (snd (recreateCell X r s c)) = styleMap r"
  "SheetList (file' (snd (recreateCell X r s c))) = SheetList (file' r)"
  "StyleTable (file' (snd (recreateCell X r s c))) = StyleTable (file' r)"
  "ActiveSheet (file' (snd (recreateCell X r s c))) = ActiveSheet (file' r)"
  "Defined (file' (snd (recreateCell X r s c))) = Defined (file' r)"
proof -
  let ?g = "snd (setValueOrFormula X r s c)"
  have g: "SheetList ?g = SheetList (file' r)" "StyleTable ?g = StyleTable (file' r)"
    "ActiveSheet ?g = ActiveSheet (file' r)" "Defined ?g = Defined (file' r)"
    by simp_all
  consider (skip) "snd (recreateCell X r s c) = r"
    | (failed) "snd (recreateCell X r s c) = r\<lparr>file' := ?g\<rparr>"
    | (written) "snd (recreateCell X r s c) = r\<lparr>file' := setHyperlink X (applyStyle X r ?g s c) s c\<rparr>"
    by (cases rule: recreateCell_cases[of r c X s]) simp_all
  note cases = this
  show "metadata (snd (recreateCell X r s c)) = metadata r"
    by (cases rule: cases) simp_all
  show "options (snd (recreateCell X r s c)) = options r"
    by (cases rule: cases) simp_all
  show "styleMap (snd (recreateCell X r s c)) = styleMap r"
    by (cases rule: cases) simp_all
  show "SheetList (file' (snd (recreateCell X r s c))) = SheetList (file' r)"
    by (cases rule: cases) (simp_all add: g)
  show "StyleTable (file' (snd (recreateCell X r s c))) = StyleTable (file' r)"
    by (cases rule: cases) (simp_all add: g)
  show "ActiveSheet (file' (snd (recreateCell X r s c))) = ActiveSheet (file' r)"
    by (cases rule: cases) (simp_all add: g)
  show "Defined (file' (snd (recreateCell X r s c))) = Defined (file' r)"
    by (cases rule: cases) (simp_all add: g)
qed

lemma recreateDataValidation_snd:
  "snd (recreateDataValidation r s dv) =
     r\<lparr>file' := snd (AddDataValidation (file' r) s
        \<lparr>XType = ValidationType dv, XOperator = Operator dv, XFormula1 = Formula1 dv,
         XFormula2 = Formula2 dv, ShowErrorMessage = ShowError dv, XErrorTitle = ErrorTitle dv,
         XError = ErrorMessage dv, Sqref = Range dv\<rparr>)\<rparr>"
  by (simp add: recreateDataValidation_def Let_def split_def)

lemma recreateSheetProtection_snd:
  "snd (recreateSheetProtection r s p) =
     r\<lparr>file' := snd (ProtectSheet (file' r) s
        \<lparr>OptPassword = Password p, OptEditObjects = EditObjects p,
         OptEditScenarios = EditScenarios p, OptSelectLockedCells = SelectLockedCells p,
         OptSelectUnlockedCells = SelectUnlockedCells p\<rparr>)\<rparr>"
  by (simp add: recreateSheetProtection_def Let_def split_def)

lemma core_eq:
  "core f = core g \<longleftrightarrow> SheetList f = SheetList g \<and> ActiveSheet f = ActiveSheet g \<and>
     StyleTable f = StyleTable g \<and> CellValues f = CellValues g \<and> CellFormulas f = CellFormulas g \<and>
     CellStyles f = CellStyles g \<and> CellLinks f = CellLinks g \<and> Defined f = Defined g"
  by (simp add: core_def)

lemma core_fields:
  "core f = core g \<Longrightarrow> SheetList f = SheetList g"
  "core f = core g \<Longrightarrow> ActiveSheet f = ActiveSheet g"
  "core f = core g \<Longrightarrow> StyleTable f = StyleTable g"
  "core f = core g \<Longrightarrow> CellValues f = CellValues g"
  "core f = core g \<Longrightarrow> CellFormulas f = CellFormulas g"
  "core f = core g \<Longrightarrow> CellStyles f = CellStyles g"
  "core f = core g \<Longrightarrow> CellLinks f = CellLinks g"
  "core f = core g \<Longrightarrow> Defined f = Defined g"
  by (simp_all add: core_eq)

lemma applyGeometry_core [simp]: "core (applyGeometry f n sm) = core f"
proof -
  have a: "\<And>g. core (foldl (\<lambda>f. \<lambda>(col, width). snd (SetColWidth f n col col width)) g (ColWidths sm)) = core g"
  proof -
    fix g
    show "core (foldl (\<lambda>f. \<lambda>(col, width). snd (SetColWidth f n col col width)) g (ColWidths sm)) = core g"
      by (rule foldl_inv[where P = "\<lambda>h. core h = core g"]) (auto simp: core_eq)
  qed
  have b: "\<And>g. core (foldl (\<lambda>f. \<lambda>(row, height). snd (SetRowHeight f n row height)) g (RowHeights sm)) = core g"
  proof -
    fix g
    show "core (foldl (\<lambda>f. \<lambda>(row, height). snd (SetRowHeight f n row height)) g (RowHeights sm)) = core g"
      by (rule foldl_inv[where P = "\<lambda>h. core h = core g"]) (auto simp: core_eq)
  qed
  have c: "core (snd (SetSheetVisible f n (Visible sm))) = core f"
    by (simp add: core_eq)
  show ?thesis
    by (simp add: applyGeometry_def Let_def a b c)
qed

lemma finishSheet_frame [simp]:
  "metadata (finishSheet r n sm) = metadata r"
  "options (finishSheet r n sm) = options r"
  "styleMap (finishSheet r n sm) = styleMap r"
  "core (file' (finishSheet r n sm)) = core (file' r)"
proof -
  let ?P = "\<lambda>q :: Recreator. metadata q = metadata r \<and> options q = options r \<and> styleMap q = styleMap r \<and>
     core (file' q) = core (file' r)"
  let ?r1 = "r\<lparr>file' := foldl (\<lambda>f merge. snd (MergeCell f n (StartCell merge) (EndCell merge)))
                (file' r) (MergedCells sm)\<rparr>"
  have "core (foldl (\<lambda>f merge. snd (MergeCell f n (StartCell merge) (EndCell merge)))
                (file' r) (MergedCells sm)) = core (file' r)"
    by (rule foldl_inv[where P = "\<lambda>h. core h = core (file' r)"]) (auto simp: core_eq)
  then have p1: "?P ?r1" by simp
  let ?r2 = "if PreserveDataValidation (options ?r1)
               then foldl (\<lambda>r dv. snd (recreateDataValidation r n dv)) ?r1 (DataValidations sm)
               else ?r1"
  have "?P (foldl (\<lambda>r dv. snd (recreateDataValidation r n dv)) ?r1 (DataValidations sm))"
  proof (rule foldl_inv[where P = ?P])
    show "?P ?r1" by (rule p1)
  next
    fix a :: Recreator and x assume "?P a"
    then show "?P (snd (recreateDataValidation a n x))"
      by (simp add: recreateDataValidation_snd core_eq)
  qed
  with p1 have p2: "?P ?r2" by presburger
  have p3: "\<And>q p. ?P q \<Longrightarrow> ?P (snd (recreateSheetProtection q n p))"
    by (simp add: recreateSheetProtection_snd core_eq)
  have "?P (finishSheet r n sm)"
    unfolding finishSheet_def Let_def
    using p2 p3 by (auto split: option.splits)
  then show "metadata (finishSheet r n sm) = metadata r"
  "options (finishSheet r n sm) = options r"
  "styleMap (finishSheet r n sm) = styleMap r"
  "core (file' (finishSheet r n sm)) = core (file' r)"
    by simp_all
qed

lemma applyGeometry_fields [simp]:
  "SheetList (applyGeometry f n sm) = SheetList f"
  "ActiveSheet (applyGeometry f n sm) = ActiveSheet f"
  "StyleTable (applyGeometry f n sm) = StyleTable f"
  "CellValues (applyGeometry f n sm) = CellValues f"
  "CellFormulas (applyGeometry f n sm) = CellFormulas f"
  "CellStyles (applyGeometry f n sm) = CellStyles f"
  "CellLinks (applyGeometry f n sm) = CellLinks f"
  "Defined (applyGeometry f n sm) = Defined f"
  by (rule core_fields[OF applyGeometry_core])+

lemma finishSheet_fields [simp]:
  "SheetList (file' (finishSheet r n sm)) = SheetList (file' r)"
  "ActiveSheet (file' (finishSheet r n sm)) = ActiveSheet (file' r)"
  "StyleTable (file' (finishSheet r n sm)) = StyleTable (file' r)"
  "CellValues (file' (finishSheet r n sm)) = CellValues (file' r)"
  "CellFormulas (file' (finishSheet r n sm)) = CellFormulas (file' r)"
  "CellStyles (file' (finishSheet r n sm)) = CellStyles (file' r)"
  "CellLinks (file' (finishSheet r n sm)) = CellLinks (file' r)"
  "Defined (file' (finishSheet r n sm)) = Defined (file' r)"
  by (rule core_fields[OF finishSheet_frame(4)])+

section \<open>One pass of the cell loop\<close>





lemma recreateCell_other:
  assumes "cellKey X (file' r) s (Address cell) \<noteq> Inr k"
  shows "CellValues (file' (snd (recreateCell X r s cell))) k = CellValues (file' r) k"
    and "CellFormulas (file' (snd (recreateCell X r s cell))) k = CellFormulas (file' r) k"
    and "CellStyles (file' (snd (recreateCell X r s cell))) k = CellStyles (file' r) k"
    and "CellLinks (file' (snd (recreateCell X r s cell))) k = CellLinks (file' r) k"
proof -
  let ?a = "Address cell"
  have key: "\<And>f :: File. SheetList f = SheetList (file' r) \<Longrightarrow> cellKey X f s ?a \<noteq> Inr k"
    using assms by (simp add: cellKey_def)
  have content: "\<And>(f :: File) c. SheetList f = SheetList (file' r) \<Longrightarrow>
      CellValues (snd (setContent X f s ?a c)) k = CellValues f k"
    using key by (auto simp: setContent_def split: sum.splits)
  have wv: "\<And>v. CellValues (writeValue X (file' r) s ?a v) k = CellValues (file' r) k"
    by (simp add: writeValue_def coerce_def SetCellFloat_def SetCellInt_def SetCellBool_def
        SetCellValue_def content split: CellValue.splits option.splits)
  have fo: "CellFormulas (snd (SetCellFormula X (file' r) s ?a (Formula cell))) k = CellFormulas (file' r) k"
    using key[of "file' r"] by (auto simp: SetCellFormula_def split: sum.splits)
  have svf: "CellValues (snd (setValueOrFormula X r s cell)) k = CellValues (file' r) k"
    "CellFormulas (snd (setValueOrFormula X r s cell)) k = CellFormulas (file' r) k"
    by (simp_all add: setValueOrFormula_def wv fo split: option.splits)
  have st: "\<And>(f :: File) n. SheetList f = SheetList (file' r) \<Longrightarrow>
      CellStyles (snd (SetCellStyle X f s ?a ?a n)) k = CellStyles f k"
  proof -
    fix f :: File and n assume sl: "SheetList f = SheetList (file' r)"
    show "CellStyles (snd (SetCellStyle X f s ?a ?a n)) k = CellStyles f k"
    proof (cases "cellKey X f s ?a")
      case (Inl e) then show ?thesis by (simp add: SetCellStyle_bad_key)
    next
      case (Inr k')
      with key[OF sl] have ne: "k' \<noteq> k" by auto
      show ?thesis
      proof (cases "0 \<le> n \<and> n < int (length (StyleTable f))")
        case True
        then show ?thesis using Inr ne by (simp add: SetCellStyle_single)
      next
        case False
        then have "snd (SetCellStyle X f s ?a ?a n) = f" by (intro SetCellStyle_bad_id) auto
        then show ?thesis by simp
      qed
    qed
  qed
  have ast: "\<And>f :: File. SheetList f = SheetList (file' r) \<Longrightarrow> CellStyles (applyStyle X r f s cell) k = CellStyles f k"
    by (simp add: applyStyle_def st split: option.splits)
  have lk: "\<And>f :: File. SheetList f = SheetList (file' r) \<Longrightarrow> CellLinks (setHyperlink X f s cell) k = CellLinks f k"
    using key by (auto simp: setHyperlink_def SetCellHyperLink_def split: option.splits sum.splits)
  show "CellValues (file' (snd (recreateCell X r s cell))) k = CellValues (file' r) k"
    using svf(1) by (cases rule: recreateCell_cases[of r cell X s]) simp_all
  show "CellFormulas (file' (snd (recreateCell X r s cell))) k = CellFormulas (file' r) k"
    using svf(2) by (cases rule: recreateCell_cases[of r cell X s]) simp_all
  have sl: "SheetList (snd (setValueOrFormula X r s cell)) = SheetList (file' r)" by simp
  have cs: "CellStyles (snd (setValueOrFormula X r s cell)) = CellStyles (file' r)" by simp
  have cl: "CellLinks (snd (setValueOrFormula X r s cell)) = CellLinks (file' r)" by simp
  show "CellStyles (file' (snd (recreateCell X r s cell))) k = CellStyles (file' r) k"
  proof (cases rule: recreateCell_cases[of r cell X s])
    case (written f)
    then show ?thesis using ast[of f] sl cs by simp
  next
    case (failed e f)
    then show ?thesis using cs by simp
  qed simp_all
  show "CellLinks (file' (snd (recreateCell X r s cell))) k = CellLinks (file' r) k"
  proof (cases rule: recreateCell_cases[of r cell X s])
    case (written f)
    then show ?thesis using lk[of "applyStyle X r f s cell"] sl cl by simp
  next
    case (failed e f)
    then show ?thesis using cl by simp
  qed simp_all
qed

lemma recreateCells_inv:
  assumes "\<And>r c. P r \<Longrightarrow> P (snd (recreateCell X r s c))" and "P r"
  shows "P (snd (recreateCells X r s cs))"
  using assms(2)
proof (induction cs arbitrary: r)
  case Nil
  then show ?case by simp
next
  case (Cons c cs)
  have "P (snd (recreateCell X r s c))" by (rule assms(1)[OF Cons.prems])
  then show ?case
    using Cons.IH[of "snd (recreateCell X r s c)"]
    by (cases "recreateCell X r s c") (auto split: option.splits)
qed

lemma recreateCells_frame [simp]:
  "metadata (snd (recreateCells X r s cs)) = metadata r"
  "options (snd (recreateCells X r s cs)) = options r"
  "styleMap (snd (recreateCells X r s cs)) = styleMap r"
  "SheetList (file' (snd (recreateCells X r s cs))) = SheetList (file' r)"
  "StyleTable (file' (snd (recreateCells X r s cs))) = StyleTable (file' r)"
  "ActiveSheet (file' (snd (recreateCells X r s cs))) = ActiveSheet (file' r)"
  "Defined (file' (snd (recreateCells X r s cs))) = Defined (file' r)"
  by (rule recreateCells_inv [where P = "\<lambda>r'. metadata r' = metadata r"], simp, simp)
     (rule recreateCells_inv [where P = "\<lambda>r'. options r' = options r"], simp, simp,
      rule recreateCells_inv [where P = "\<lambda>r'. styleMap r' = styleMap r"], simp, simp,
      rule recreateCells_inv [where P = "\<lambda>r'. SheetList (file' r') = SheetList (file' r)"], simp, simp,
      rule recreateCells_inv [where P = "\<lambda>r'. StyleTable (file' r') = StyleTable (file' r)"], simp, simp,
      rule recreateCells_inv [where P = "\<lambda>r'. ActiveSheet (file' r') = ActiveSheet (file' r)"], simp, simp,
      rule recreateCells_inv [where P = "\<lambda>r'. Defined (file' r') = Defined (file' r)"], simp, simp)

lemma recreateCells_untouched:
  assumes "\<forall>c \<in> set cells. cellKey X (file' r) s (Address c) = Inr k \<longrightarrow>
             SkipEmptyCells (options r) \<and> Value c = None \<and> Formula c = []"
  shows "CellValues (file' (snd (recreateCells X r s cells))) k = CellValues (file' r) k \<and>
         CellFormulas (file' (snd (recreateCells X r s cells))) k = CellFormulas (file' r) k \<and>
         CellStyles (file' (snd (recreateCells X r s cells))) k = CellStyles (file' r) k \<and>
         CellLinks (file' (snd (recreateCells X r s cells))) k = CellLinks (file' r) k"
  using assms
proof (induction cells arbitrary: r)
  case Nil
  then show ?case by simp
next
  case (Cons c cs)
  let ?r1 = "snd (recreateCell X r s c)"
  have one: "CellValues (file' ?r1) k = CellValues (file' r) k \<and>
         CellFormulas (file' ?r1) k = CellFormulas (file' r) k \<and>
         CellStyles (file' ?r1) k = CellStyles (file' r) k \<and>
         CellLinks (file' ?r1) k = CellLinks (file' r) k"
  proof (cases "cellKey X (file' r) s (Address c) = Inr k")
    case True
    with Cons.prems have "recreateCell X r s c = (None, r)"
      by (simp add: recreateCell_skip)
    then show ?thesis by simp
  next
    case False
    then show ?thesis by (simp add: recreateCell_other)
  qed
  have keys: "\<And>a. cellKey X (file' ?r1) s a = cellKey X (file' r) s a"
    by (simp add: cellKey_def)
  have "\<forall>c \<in> set cs. cellKey X (file' ?r1) s (Address c) = Inr k \<longrightarrow>
           SkipEmptyCells (options ?r1) \<and> Value c = None \<and> Formula c = []"
    using Cons.prems by (simp add: keys)
  from Cons.IH[OF this] one
  show ?case
    by (cases rule: recreateCell_cases[of r c X s]) simp_all
qed


section \<open>Sheets and the whole run\<close>

lemma recreateSheet_cases:
  fixes r :: Recreator and sm :: SheetMetadata and X :: Extern
  defines "n \<equiv> sheetNameOf (options r) sm"
  defines "r0 \<equiv> r\<lparr>file' := applyGeometry (snd (NewSheet X (file' r) n)) n sm\<rparr>"
  obtains (badname) "checkSheetName X n = False" "recreateSheet X r sm = (Some (ErrSheetName n), r)"
  | (cellerr) e where "checkSheetName X n" "fst (recreateCells X r0 n (Cells sm)) = Some e"
      "recreateSheet X r sm = (Some e, snd (recreateCells X r0 n (Cells sm)))"
  | (finished) "checkSheetName X n" "fst (recreateCells X r0 n (Cells sm)) = None"
      "recreateSheet X r sm = (None, finishSheet (snd (recreateCells X r0 n (Cells sm))) n sm)"
proof (cases "checkSheetName X n")
  case False
  then have "recreateSheet X r sm = (Some (ErrSheetName n), r)"
    by (simp add: recreateSheet_def NewSheet_def n_def)
  with False show ?thesis using badname by simp
next
  case True
  then obtain i where ns: "NewSheet X (file' r) n = (Inr i, snd (NewSheet X (file' r) n))"
    by (cases "n \<in> set (SheetList (file' r))") (auto simp: NewSheet_def)
  have unfold: "recreateSheet X r sm =
      (case recreateCells X r0 n (Cells sm) of
         (Some err, r) \<Rightarrow> (Some err, r)
       | (None, r) \<Rightarrow> (None, finishSheet r n sm))"
    unfolding recreateSheet_def Let_def n_def[symmetric]
    by (subst ns) (simp add: r0_def)
  show ?thesis
  proof (cases "fst (recreateCells X r0 n (Cells sm))")
    case None
    then have "recreateSheet X r sm = (None, finishSheet (snd (recreateCells X r0 n (Cells sm))) n sm)"
      by (simp add: unfold split_def)
    with True None show ?thesis using finished by simp
  next
    case (Some e)
    then have "recreateSheet X r sm = (Some e, snd (recreateCells X r0 n (Cells sm)))"
      by (simp add: unfold split_def)
    with True Some show ?thesis using cellerr by simp
  qed
qed

lemma recreateSheet_frame [simp]:
  "metadata (snd (recreateSheet X r sm)) = metadata r"
  "options (snd (recreateSheet X r sm)) = options r"
  "styleMap (snd (recreateSheet X r sm)) = styleMap r"
  "ActiveSheet (file' (snd (recreateSheet X r sm))) = ActiveSheet (file' r)"
  "StyleTable (file' (snd (recreateSheet X r sm))) = StyleTable (file' r)"
  "Defined (file' (snd (recreateSheet X r sm))) = Defined (file' r)"
  "SheetList (file' (snd (recreateSheet X r sm))) =
     (if checkSheetName X (sheetNameOf (options r) sm)
      then appendNew (SheetList (file' r)) (sheetNameOf (options r) sm) else SheetList (file' r))"
proof -
  let ?n = "sheetNameOf (options r) sm"
  have sl: "checkSheetName X ?n \<Longrightarrow> SheetList (snd (NewSheet X (file' r) ?n)) = appendNew (SheetList (file' r)) ?n"
    by (simp add: NewSheet_SheetList appendNew_def)
  show "metadata (snd (recreateSheet X r sm)) = metadata r"
    by (cases rule: recreateSheet_cases[of X r sm]) simp_all
  show "options (snd (recreateSheet X r sm)) = options r"
    by (cases rule: recreateSheet_cases[of X r sm]) simp_all
  show "styleMap (snd (recreateSheet X r sm)) = styleMap r"
    by (cases rule: recreateSheet_cases[of X r sm]) simp_all
  show "ActiveSheet (file' (snd (recreateSheet X r sm))) = ActiveSheet (file' r)"
    by (cases rule: recreateSheet_cases[of X r sm]) simp_all
  show "StyleTable (file' (snd (recreateSheet X r sm))) = StyleTable (file' r)"
    by (cases rule: recreateSheet_cases[of X r sm]) simp_all
  show "Defined (file' (snd (recreateSheet X r sm))) = Defined (file' r)"
    by (cases rule: recreateSheet_cases[of X r sm]) simp_all
  show "SheetList (file' (snd (recreateSheet X r sm))) =
     (if checkSheetName X ?n then appendNew (SheetList (file' r)) ?n else SheetList (file' r))"
    by (cases rule: recreateSheet_cases[of X r sm]) (simp_all add: sl)
qed


lemma recreateSheets_frame [simp]:
  "metadata (snd (recreateSheets X r sms)) = metadata r"
  "options (snd (recreateSheets X r sms)) = options r"
  "styleMap (snd (recreateSheets X r sms)) = styleMap r"
  "ActiveSheet (file' (snd (recreateSheets X r sms))) = ActiveSheet (file' r)"
  "StyleTable (file' (snd (recreateSheets X r sms))) = StyleTable (file' r)"
  "Defined (file' (snd (recreateSheets X r sms))) = Defined (file' r)"
proof -
  have "metadata (snd (recreateSheets X r sms)) = metadata r \<and>
    options (snd (recreateSheets X r sms)) = options r \<and>
    styleMap (snd (recreateSheets X r sms)) = styleMap r \<and>
    ActiveSheet (file' (snd (recreateSheets X r sms))) = ActiveSheet (file' r) \<and>
    StyleTable (file' (snd (recreateSheets X r sms))) = StyleTable (file' r) \<and>
    Defined (file' (snd (recreateSheets X r sms))) = Defined (file' r)"
  proof (induction sms arbitrary: r)
    case Nil
    then show ?case by simp
  next
    case (Cons sm sms)
    show ?case
      using Cons.IH[of "snd (recreateSheet X r sm)"]
      by (cases "fst (recreateSheet X r sm)") (simp_all add: split_def)
  qed
  then show "metadata (snd (recreateSheets X r sms)) = metadata r"
    "options (snd (recreateSheets X r sms)) = options r"
    "styleMap (snd (recreateSheets X r sms)) = styleMap r"
    "ActiveSheet (file' (snd (recreateSheets X r sms))) = ActiveSheet (file' r)"
    "StyleTable (file' (snd (recreateSheets X r sms))) = StyleTable (file' r)"
    "Defined (file' (snd (recreateSheets X r sms))) = Defined (file' r)"
    by simp_all
qed


lemma SetDocProps_core [simp]: "core (snd (SetDocProps X f p)) = core f"
  by (simp add: SetDocProps_def core_def)

lemma recreateDocumentProperties_frame [simp]:
  "metadata (snd (recreateDocumentProperties X r)) = metadata r"
  "options (snd (recreateDocumentProperties X r)) = options r"
  "styleMap (snd (recreateDocumentProperties X r)) = styleMap r"
  "core (file' (snd (recreateDocumentProperties X r))) = core (file' r)"
  by (simp_all add: recreateDocumentProperties_def Let_def split_def)

lemma NewStyle_fields [simp]:
  "SheetList (snd (NewStyle X f st)) = SheetList f"
  "ActiveSheet (snd (NewStyle X f st)) = ActiveSheet f"
  "CellValues (snd (NewStyle X f st)) = CellValues f"
  "CellFormulas (snd (NewStyle X f st)) = CellFormulas f"
  "CellStyles (snd (NewStyle X f st)) = CellStyles f"
  "CellLinks (snd (NewStyle X f st)) = CellLinks f"
  "Defined (snd (NewStyle X f st)) = Defined f"
  by (simp_all add: NewStyle_def split: option.splits)

lemma recreateStylesLoop_frame [simp]:
  "metadata (recreateStylesLoop X ms r) = metadata r"
  "options (recreateStylesLoop X ms r) = options r"
  "SheetList (file' (recreateStylesLoop X ms r)) = SheetList (file' r)"
  "ActiveSheet (file' (recreateStylesLoop X ms r)) = ActiveSheet (file' r)"
  "CellValues (file' (recreateStylesLoop X ms r)) = CellValues (file' r)"
  "CellFormulas (file' (recreateStylesLoop X ms r)) = CellFormulas (file' r)"
  "CellStyles (file' (recreateStylesLoop X ms r)) = CellStyles (file' r)"
  "CellLinks (file' (recreateStylesLoop X ms r)) = CellLinks (file' r)"
  "Defined (file' (recreateStylesLoop X ms r)) = Defined (file' r)"
proof -
  have "metadata (recreateStylesLoop X ms r) = metadata r \<and>
    options (recreateStylesLoop X ms r) = options r \<and>
    SheetList (file' (recreateStylesLoop X ms r)) = SheetList (file' r) \<and>
    ActiveSheet (file' (recreateStylesLoop X ms r)) = ActiveSheet (file' r) \<and>
    CellValues (file' (recreateStylesLoop X ms r)) = CellValues (file' r) \<and>
    CellFormulas (file' (recreateStylesLoop X ms r)) = CellFormulas (file' r) \<and>
    CellStyles (file' (recreateStylesLoop X ms r)) = CellStyles (file' r) \<and>
    CellLinks (file' (recreateStylesLoop X ms r)) = CellLinks (file' r) \<and>
    Defined (file' (recreateStylesLoop X ms r)) = Defined (file' r)"
  proof (induction ms arbitrary: r)
    case Nil
    then show ?case by simp
  next
    case (Cons m ms)
    obtain oldID sd where m: "m = (oldID, sd)" by (cases m)
    show ?case
      unfolding m recreateStylesLoop.simps Let_def split_def
      by (cases "fst (NewStyle X (file' r) (buildStyle sd))") (simp_all add: Cons.IH)
  qed
  then show "metadata (recreateStylesLoop X ms r) = metadata r"
  "options (recreateStylesLoop X ms r) = options r"
  "SheetList (file' (recreateStylesLoop X ms r)) = SheetList (file' r)"
  "ActiveSheet (file' (recreateStylesLoop X ms r)) = ActiveSheet (file' r)"
  "CellValues (file' (recreateStylesLoop X ms r)) = CellValues (file' r)"
  "CellFormulas (file' (recreateStylesLoop X ms r)) = CellFormulas (file' r)"
  "CellStyles (file' (recreateStylesLoop X ms r)) = CellStyles (file' r)"
  "CellLinks (file' (recreateStylesLoop X ms r)) = CellLinks (file' r)"
  "Defined (file' (recreateStylesLoop X ms r)) = Defined (file' r)"
    by simp_all
qed

lemma recreateStyles_nonfatal [simp]: "fst (recreateStyles X r) = None"
  by (simp add: recreateStyles_def)

lemma recreateStyles_snd: "snd (recreateStyles X r) = recreateStylesLoop X (Styles (metadata r)) r"
  by (simp add: recreateStyles_def)


lemma SetDefinedName_fields [simp]:
  "SheetList (snd (SetDefinedName X f d)) = SheetList f"
  "ActiveSheet (snd (SetDefinedName X f d)) = ActiveSheet f"
  "StyleTable (snd (SetDefinedName X f d)) = StyleTable f"
  "CellValues (snd (SetDefinedName X f d)) = CellValues f"
  "CellFormulas (snd (SetDefinedName X f d)) = CellFormulas f"
  "CellStyles (snd (SetDefinedName X f d)) = CellStyles f"
  "CellLinks (snd (SetDefinedName X f d)) = CellLinks f"
  by (simp_all add: SetDefinedName_def)

lemma recreateDefinedNamesLoop_frame [simp]:
  "metadata (snd (recreateDefinedNamesLoop X r ns)) = metadata r"
  "options (snd (recreateDefinedNamesLoop X r ns)) = options r"
  "styleMap (snd (recreateDefinedNamesLoop X r ns)) = styleMap r"
  "SheetList (file' (snd (recreateDefinedNamesLoop X r ns))) = SheetList (file' r)"
  "ActiveSheet (file' (snd (recreateDefinedNamesLoop X r ns))) = ActiveSheet (file' r)"
  "StyleTable (file' (snd (recreateDefinedNamesLoop X r ns))) = StyleTable (file' r)"
  "CellValues (file' (snd (recreateDefinedNamesLoop X r ns))) = CellValues (file' r)"
  "CellFormulas (file' (snd (recreateDefinedNamesLoop X r ns))) = CellFormulas (file' r)"
  "CellStyles (file' (snd (recreateDefinedNamesLoop X r ns))) = CellStyles (file' r)"
  "CellLinks (file' (snd (recreateDefinedNamesLoop X r ns))) = CellLinks (file' r)"
proof -
  have "metadata (snd (recreateDefinedNamesLoop X r ns)) = metadata r \<and>
  options (snd (recreateDefinedNamesLoop X r ns)) = options r \<and>
  styleMap (snd (recreateDefinedNamesLoop X r ns)) = styleMap r \<and>
  SheetList (file' (snd (recreateDefinedNamesLoop X r ns))) = SheetList (file' r) \<and>
  ActiveSheet (file' (snd (recreateDefinedNamesLoop X r ns))) = ActiveSheet (file' r) \<and>
  StyleTable (file' (snd (recreateDefinedNamesLoop X r ns))) = StyleTable (file' r) \<and>
  CellValues (file' (snd (recreateDefinedNamesLoop X r ns))) = CellValues (file' r) \<and>
  CellFormulas (file' (snd (recreateDefinedNamesLoop X r ns))) = CellFormulas (file' r) \<and>
  CellStyles (file' (snd (recreateDefinedNamesLoop X r ns))) = CellStyles (file' r) \<and>
  CellLinks (file' (snd (recreateDefinedNamesLoop X r ns))) = CellLinks (file' r)"
  proof (induction ns arbitrary: r)
    case Nil
    then show ?case by simp
  next
    case (Cons n ns)
    show ?case
      using Cons.IH[of "r\<lparr>file' := snd (SetDefinedName X (file' r) (recreateDefinedName n))\<rparr>"]
      by (cases "fst (SetDefinedName X (file' r) (recreateDefinedName n))") (simp_all add: split_def)
  qed
  then show "metadata (snd (recreateDefinedNamesLoop X r ns)) = metadata r"
  "options (snd (recreateDefinedNamesLoop X r ns)) = options r"
  "styleMap (snd (recreateDefinedNamesLoop X r ns)) = styleMap r"
  "SheetList (file' (snd (recreateDefinedNamesLoop X r ns))) = SheetList (file' r)"
  "ActiveSheet (file' (snd (recreateDefinedNamesLoop X r ns))) = ActiveSheet (file' r)"
  "StyleTable (file' (snd (recreateDefinedNamesLoop X r ns))) = StyleTable (file' r)"
  "CellValues (file' (snd (recreateDefinedNamesLoop X r ns))) = CellValues (file' r)"
  "CellFormulas (file' (snd (recreateDefinedNamesLoop X r ns))) = CellFormulas (file' r)"
  "CellStyles (file' (snd (recreateDefinedNamesLoop X r ns))) = CellStyles (file' r)"
  "CellLinks (file' (snd (recreateDefinedNamesLoop X r ns))) = CellLinks (file' r)"
    by simp_all
qed

lemma SetActiveSheet_fields [simp]:
  "SheetList (SetActiveSheet f i) = SheetList f"
  "StyleTable (SetActiveSheet f i) = StyleTable f"
  "CellValues (SetActiveSheet f i) = CellValues f"
  "CellFormulas (SetActiveSheet f i) = CellFormulas f"
  "CellStyles (SetActiveSheet f i) = CellStyles f"
  "CellLinks (SetActiveSheet f i) = CellLinks f"
  "Defined (SetActiveSheet f i) = Defined f"
  by (simp_all add: SetActiveSheet_def Let_def)

lemma activateFirstVisible_find:
  "activateFirstVisible f sheets =
     (case find Visible sheets of None \<Rightarrow> f | Some sheet \<Rightarrow> SetActiveSheet f (sint (Index sheet)))"
  by (induction sheets) simp_all

lemma activateFirstVisible_fields [simp]:
  "SheetList (activateFirstVisible f sheets) = SheetList f"
  "StyleTable (activateFirstVisible f sheets) = StyleTable f"
  "CellValues (activateFirstVisible f sheets) = CellValues f"
  "CellFormulas (activateFirstVisible f sheets) = CellFormulas f"
  "CellStyles (activateFirstVisible f sheets) = CellStyles f"
  "CellLinks (activateFirstVisible f sheets) = CellLinks f"
  "Defined (activateFirstVisible f sheets) = Defined f"
  by (simp_all add: activateFirstVisible_find split: option.splits)


lemma foldl_appendNew_head:
  "foldl appendNew (x # xs) ns = x # tl (foldl appendNew (x # xs) ns)"
  by (induction ns arbitrary: xs) (auto simp: appendNew_def)




lemma phases_frame [simp]:
  "metadata (afterProps X r) = metadata r" "options (afterProps X r) = options r"
  "metadata (afterStyles X r) = metadata r" "options (afterStyles X r) = options r"
  "metadata (afterDelete X r) = metadata r" "options (afterDelete X r) = options r"
  "metadata (afterSheets X r) = metadata r" "options (afterSheets X r) = options r"
  "metadata (afterNames X r) = metadata r" "options (afterNames X r) = options r"
  by (simp_all add: afterProps_def afterStyles_def afterDelete_def afterSheets_def afterNames_def
      recreateStyles_snd recreateDefinedNames_def)



section \<open>The remap table\<close>







section \<open>Two runs on the same document\<close>

lemma observed_eq:
  "observed f = observed g \<longleftrightarrow>
     SheetList f = SheetList g \<and> ActiveSheet f = ActiveSheet g \<and> CellValues f = CellValues g \<and>
     CellFormulas f = CellFormulas g \<and> CellLinks f = CellLinks g \<and> cellStyle f = cellStyle g \<and>
     Defined f = Defined g"
  by (simp add: observed_def)

lemma cellStyle_cong:
  "StyleTable f' = StyleTable f \<Longrightarrow> CellStyles f' = CellStyles f \<Longrightarrow> cellStyle f' = cellStyle f"
proof -
  assume a: "StyleTable f' = StyleTable f" "CellStyles f' = CellStyles f"
  have s: "styleOf f' = styleOf f" by (rule ext) (simp add: styleOf_def a(1))
  show ?thesis by (rule ext) (simp add: cellStyle_def a(2) s)
qed

lemma observed_core: "core f' = core f \<Longrightarrow> observed f' = observed f"
proof -
  assume c: "core f' = core f"
  have "cellStyle f' = cellStyle f"
    using c by (intro cellStyle_cong) (simp_all add: core_eq)
  then show ?thesis using c by (simp add: observed_eq core_eq)
qed

lemma cellKey_observed:
  "observed f = observed g \<Longrightarrow> cellKey X f s a = cellKey X g s a"
  by (simp add: observed_eq cellKey_def)

lemma setContent_observed:
  assumes "observed f = observed g"
  shows "fst (setContent X f s a v) = fst (setContent X g s a v) \<and>
         observed (snd (setContent X f s a v)) = observed (snd (setContent X g s a v))"
proof (cases "cellKey X f s a")
  case (Inl e)
  then have "cellKey X g s a = Inl e" using cellKey_observed[OF assms] by simp
  with Inl assms show ?thesis by (simp add: setContent_def)
next
  case (Inr k)
  then have g: "cellKey X g s a = Inr k" using cellKey_observed[OF assms] by simp
  have "cellStyle (f\<lparr>CellValues := (CellValues f)(k \<mapsto> v)\<rparr>) = cellStyle f"
    "cellStyle (g\<lparr>CellValues := (CellValues g)(k \<mapsto> v)\<rparr>) = cellStyle g"
    by (rule cellStyle_cong; simp)+
  with Inr g assms show ?thesis by (simp add: setContent_def observed_eq)
qed

lemma writeValue_observed:
  assumes "observed f = observed g"
  shows "observed (writeValue X f s a v) = observed (writeValue X g s a v)"
  using setContent_observed[OF assms]
  by (simp add: writeValue_def coerce_def SetCellFloat_def SetCellInt_def SetCellBool_def
      SetCellValue_def split: CellValue.splits option.splits)

lemma SetCellFormula_observed:
  assumes "observed f = observed g"
  shows "fst (SetCellFormula X f s a v) = fst (SetCellFormula X g s a v) \<and>
         observed (snd (SetCellFormula X f s a v)) = observed (snd (SetCellFormula X g s a v))"
proof (cases "cellKey X f s a")
  case (Inl e)
  then have "cellKey X g s a = Inl e" using cellKey_observed[OF assms] by simp
  with Inl assms show ?thesis by (simp add: SetCellFormula_def)
next
  case (Inr k)
  then have g: "cellKey X g s a = Inr k" using cellKey_observed[OF assms] by simp
  have "cellStyle (f\<lparr>CellFormulas := (CellFormulas f)(k \<mapsto> v)\<rparr>) = cellStyle f"
    "cellStyle (g\<lparr>CellFormulas := (CellFormulas g)(k \<mapsto> v)\<rparr>) = cellStyle g"
    by (rule cellStyle_cong; simp)+
  with Inr g assms show ?thesis by (simp add: SetCellFormula_def observed_eq)
qed

lemma setValueOrFormula_observed:
  assumes "options r = options r'" "observed (file' r) = observed (file' r')"
  shows "fst (setValueOrFormula X r s c) = fst (setValueOrFormula X r' s c) \<and>
         observed (snd (setValueOrFormula X r s c)) = observed (snd (setValueOrFormula X r' s c))"
  using SetCellFormula_observed[OF assms(2)] writeValue_observed[OF assms(2)] assms
  by (simp add: setValueOrFormula_def split: option.splits)

lemma setHyperlink_observed:
  assumes "observed f = observed g"
  shows "observed (setHyperlink X f s c) = observed (setHyperlink X g s c)"
proof (cases "Hyperlink c")
  case None
  with assms show ?thesis by (simp add: setHyperlink_def)
next
  case (Some h)
  show ?thesis
  proof (cases "cellKey X f s (Address c)")
    case (Inl e)
    then have "cellKey X g s (Address c) = Inl e" using cellKey_observed[OF assms] by simp
    with Inl assms Some show ?thesis by (simp add: setHyperlink_def SetCellHyperLink_def)
  next
    case (Inr k)
    then have g: "cellKey X g s (Address c) = Inr k" using cellKey_observed[OF assms] by simp
    have "\<And>l. cellStyle (f\<lparr>CellLinks := l\<rparr>) = cellStyle f" "\<And>l. cellStyle (g\<lparr>CellLinks := l\<rparr>) = cellStyle g"
      by (rule cellStyle_cong; simp)+
    with Inr g assms Some show ?thesis
      by (simp add: setHyperlink_def SetCellHyperLink_Location observed_eq)
  qed
qed

lemma styleOf_cong: "StyleTable f' = StyleTable f \<Longrightarrow> styleOf f' = styleOf f"
  by (rule ext) (simp add: styleOf_def)

lemma cellStyle_update:
  "cellStyle (f\<lparr>CellStyles := (CellStyles f)(k \<mapsto> n)\<rparr>) = (cellStyle f)(k \<mapsto> styleOf f n)"
proof -
  have "styleOf (f\<lparr>CellStyles := (CellStyles f)(k \<mapsto> n)\<rparr>) = styleOf f"
    by (rule styleOf_cong) simp
  then show ?thesis by (intro ext) (simp add: cellStyle_def)
qed

lemma remapped_cong:
  "styleMap q = styleMap r \<Longrightarrow> StyleTable (file' q) = StyleTable (file' r) \<Longrightarrow> remapped q = remapped r"
  using styleOf_cong[of "file' q" "file' r"] by (intro ext) (simp add: remapped_def)

lemma knownIDs_cong:
  "styleMap q = styleMap r \<Longrightarrow> StyleTable (file' q) = StyleTable (file' r) \<Longrightarrow> knownIDs q = knownIDs r"
  by (simp add: knownIDs_def)

lemma sameRun_step:
  assumes "sameRun r r'"
    and "options q = options r" "styleMap q = styleMap r" "StyleTable (file' q) = StyleTable (file' r)"
    and "options q' = options r'" "styleMap q' = styleMap r'" "StyleTable (file' q') = StyleTable (file' r')"
    and "observed (file' q) = observed (file' q')"
  shows "sameRun q q'"
  using assms remapped_cong[OF assms(3,4)] remapped_cong[OF assms(6,7)]
    knownIDs_cong[OF assms(3,4)] knownIDs_cong[OF assms(6,7)]
  by (simp add: sameRun_def)

lemma applyStyle_observed:
  assumes same: "sameRun r r'"
    and obs: "observed f = observed g"
    and tab: "StyleTable f = StyleTable (file' r)" "StyleTable g = StyleTable (file' r')"
  shows "observed (applyStyle X r f s c) = observed (applyStyle X r' g s c)"
proof (cases "PreserveStyles (options r) \<and> StyleID c \<noteq> 0")
  case False
  have "options r' = options r" using same by (simp add: sameRun_def)
  with False have "applyStyle X r f s c = f" "applyStyle X r' g s c = g"
    by (auto simp: applyStyle_def)
  then show ?thesis using obs by simp
next
  case True
  have opts: "options r' = options r" using same by (simp add: sameRun_def)
  have rm: "remapped r (StyleID c) = remapped r' (StyleID c)"
    using same by (simp add: sameRun_def)
  show ?thesis
  proof (cases "styleMap r (StyleID c)")
    case None
    then have "styleMap r' (StyleID c) = None" using rm by (simp add: remapped_def)
    with None obs show ?thesis by (simp add: applyStyle_def)
  next
    case (Some n)
    then obtain n' where n': "styleMap r' (StyleID c) = Some n'"
      using rm by (cases "styleMap r' (StyleID c)") (simp_all add: remapped_def)
    have eq: "styleOf f n = styleOf g n'"
      using rm Some n' tab by (simp add: remapped_def styleOf_def)
    have kn: "0 \<le> n" "n < int (length (StyleTable f))"
      using same Some tab by (auto simp: sameRun_def knownIDs_def)
    have kn': "0 \<le> n'" "n' < int (length (StyleTable g))"
      using same n' tab by (auto simp: sameRun_def knownIDs_def)
    have a: "applyStyle X r f s c = snd (SetCellStyle X f s (Address c) (Address c) n)"
      using True Some by (simp add: applyStyle_def)
    have a': "applyStyle X r' g s c = snd (SetCellStyle X g s (Address c) (Address c) n')"
      using True n' opts by (simp add: applyStyle_def)
    show ?thesis
    proof (cases "cellKey X f s (Address c)")
      case (Inl e)
      then have "cellKey X g s (Address c) = Inl e" using cellKey_observed[OF obs] by simp
      with Inl show ?thesis by (simp add: a a' SetCellStyle_bad_key obs)
    next
      case (Inr k)
      then have g: "cellKey X g s (Address c) = Inr k" using cellKey_observed[OF obs] by simp
      have 1: "applyStyle X r f s c = f\<lparr>CellStyles := (CellStyles f)(k \<mapsto> n)\<rparr>"
        by (simp add: a SetCellStyle_single[OF Inr kn])
      have 2: "applyStyle X r' g s c = g\<lparr>CellStyles := (CellStyles g)(k \<mapsto> n')\<rparr>"
        by (simp add: a' SetCellStyle_single[OF g kn'])
      show ?thesis
        unfolding 1 2 using obs eq by (simp add: observed_eq cellStyle_update)
    qed
  qed
qed

lemma recreateCell_alt:
  "recreateCell X r s c =
     (if SkipEmptyCells (options r) \<and> Value c = None \<and> Formula c = [] then (None, r)
      else case fst (setValueOrFormula X r s c) of
             Some e \<Rightarrow> (Some e, r\<lparr>file' := snd (setValueOrFormula X r s c)\<rparr>)
           | None \<Rightarrow> (None, r\<lparr>file' := setHyperlink X
                 (applyStyle X r (snd (setValueOrFormula X r s c)) s c) s c\<rparr>))"
  by (simp add: recreateCell_def split_def split: option.splits)

lemma recreateCell_sameRun:
  assumes "sameRun r r'"
  shows "fst (recreateCell X r s c) = fst (recreateCell X r' s c) \<and>
         sameRun (snd (recreateCell X r s c)) (snd (recreateCell X r' s c))"
proof -
  have opts: "options r = options r'" and obs: "observed (file' r) = observed (file' r')"
    using assms by (simp_all add: sameRun_def)
  let ?f = "snd (setValueOrFormula X r s c)" and ?g = "snd (setValueOrFormula X r' s c)"
  note svf = setValueOrFormula_observed[OF opts obs, of X s c]
  have e: "fst (setValueOrFormula X r s c) = fst (setValueOrFormula X r' s c)" using svf by simp
  have o: "observed ?f = observed ?g" using svf by simp
  have ap: "observed (applyStyle X r ?f s c) = observed (applyStyle X r' ?g s c)"
    by (rule applyStyle_observed[OF assms o]) simp_all
  have hl: "observed (setHyperlink X (applyStyle X r ?f s c) s c)
      = observed (setHyperlink X (applyStyle X r' ?g s c) s c)"
    by (rule setHyperlink_observed[OF ap])
  have fst_eq: "fst (recreateCell X r s c) = fst (recreateCell X r' s c)"
    using e opts by (simp add: recreateCell_alt split: option.splits)
  have "observed (file' (snd (recreateCell X r s c))) = observed (file' (snd (recreateCell X r' s c)))"
    using e opts obs o hl by (simp add: recreateCell_alt split: option.splits)
  then have "sameRun (snd (recreateCell X r s c)) (snd (recreateCell X r' s c))"
    by (intro sameRun_step[OF assms]) simp_all
  with fst_eq show ?thesis by simp
qed

lemma recreateCells_sameRun:
  assumes "sameRun r r'"
  shows "fst (recreateCells X r s cs) = fst (recreateCells X r' s cs) \<and>
         sameRun (snd (recreateCells X r s cs)) (snd (recreateCells X r' s cs))"
  using assms
proof (induction cs arbitrary: r r')
  case Nil
  then show ?case by simp
next
  case (Cons c cs)
  note one = recreateCell_sameRun[OF Cons.prems, of X s c]
  show ?case
  proof (cases "fst (recreateCell X r s c)")
    case None
    then have "fst (recreateCell X r' s c) = None" using one by simp
    with None Cons.IH[of "snd (recreateCell X r s c)" "snd (recreateCell X r' s c)"] one
    show ?thesis by (simp add: split_def)
  next
    case (Some e)
    then have "fst (recreateCell X r' s c) = Some e" using one by simp
    with Some one show ?thesis by (simp add: split_def)
  qed
qed

section \<open>The claims\<close>



text \<open>
  C6.  With \<open>SkipEmptyCells\<close> on, the pass for a cell with no value and no formula returns
  at once: no error, and the recreator, its workbook included, is what it was.  Over a whole
  cell list: a cell of the sheet that only such metadata cells address holds after the loop
  the value, formula, style and hyperlink it held before the loop (none, on a new sheet).
\<close>

theorem empty_cell_skipped:
  assumes "SkipEmptyCells (options r)"
    and "\<forall>c \<in> set cells. cellKey X (file' r) sheetName (Address c) = Inr k \<longrightarrow>
           Value c = None \<and> Formula c = []"
  shows "(\<forall>c \<in> set cells. cellKey X (file' r) sheetName (Address c) = Inr k \<longrightarrow>
            recreateCell X r sheetName c = (None, r)) \<and>
         CellValues (file' (snd (recreateCells X r sheetName cells))) k = CellValues (file' r) k \<and>
         CellFormulas (file' (snd (recreateCells X r sheetName cells))) k = CellFormulas (file' r) k \<and>
         CellStyles (file' (snd (recreateCells X r sheetName cells))) k = CellStyles (file' r) k \<and>
         CellLinks (file' (snd (recreateCells X r sheetName cells))) k = CellLinks (file' r) k"
proof -
  have "\<forall>c \<in> set cells. cellKey X (file' r) sheetName (Address c) = Inr k \<longrightarrow>
            recreateCell X r sheetName c = (None, r)"
    using assms by (auto intro: recreateCell_skip)
  moreover have "\<forall>c \<in> set cells. cellKey X (file' r) sheetName (Address c) = Inr k \<longrightarrow>
             SkipEmptyCells (options r) \<and> Value c = None \<and> Formula c = []"
    using assms by auto
  note recreateCells_untouched[OF this]
  ultimately show ?thesis by blast
qed

theorem empty_cell_skipped_witness:
  "recreateCell testExtern (New emptyMetadata None) ''Sheet1''
      (emptyCell\<lparr>Address := ''B3'', StyleID := 1,
         Hyperlink := Some \<lparr>Link = ''A1''\<rparr>\<rparr>) = (None, New emptyMetadata None) \<and>
   CellValues (file' (snd (recreateCells testExtern (New emptyMetadata None) ''Sheet1''
      [emptyCell\<lparr>Address := ''A1'', Value := Some (VBool True)\<rparr>,
       emptyCell\<lparr>Address := ''B3'', StyleID := 1, Hyperlink := Some \<lparr>Link = ''A1''\<rparr>\<rparr>])))
      (''Sheet1'', 2, 3) = None \<and>
   CellStyles (file' (snd (recreateCells testExtern (New emptyMetadata None) ''Sheet1''
      [emptyCell\<lparr>Address := ''A1'', Value := Some (VBool True)\<rparr>,
       emptyCell\<lparr>Address := ''B3'', StyleID := 1, Hyperlink := Some \<lparr>Link = ''A1''\<rparr>\<rparr>])))
      (''Sheet1'', 2, 3) = None \<and>
   CellLinks (file' (snd (recreateCells testExtern (New emptyMetadata None) ''Sheet1''
      [emptyCell\<lparr>Address := ''A1'', Value := Some (VBool True)\<rparr>,
       emptyCell\<lparr>Address := ''B3'', StyleID := 1, Hyperlink := Some \<lparr>Link = ''A1''\<rparr>\<rparr>])))
      (''Sheet1'', 2, 3) = None"
  using empty_cell_skipped [of "New emptyMetadata None"
      "[emptyCell\<lparr>Address := ''A1'', Value := Some (VBool True)\<rparr>,
        emptyCell\<lparr>Address := ''B3'', StyleID := 1, Hyperlink := Some \<lparr>Link = ''A1''\<rparr>\<rparr>]"
      testExtern "''Sheet1''" "(''Sheet1'', 2, 3)"]
  by (simp add: emptyCell_def New_def DefaultOptions_def NewFile_def cellKey_def testExtern_def)





text \<open>
  C10.  \<open>New\<close> with nil options returns the recreator \<open>New\<close> returns for \<open>DefaultOptions()\<close>,
  so that whatever is done with the one is done with the other; its options preserve
  formulas, styles and data validations, skip empty cells, and name a sheet without a name
  with the prefix \<open>Sheet\<close>.
\<close>

theorem New_nil_options:
  "New md None = New md (Some DefaultOptions) \<and>
   PreserveFormulas (options (New md None)) = True \<and>
   PreserveStyles (options (New md None)) = True \<and>
   PreserveDataValidation (options (New md None)) = True \<and>
   SkipEmptyCells (options (New md None)) = True \<and>
   DefaultSheetName (options (New md None)) = ''Sheet''"
  by (simp add: New_def DefaultOptions_def)





text \<open>
  C2.  The code at the metadata of one sheet \<open>Data\<close>: \<open>DeleteSheet("Sheet1")\<close> is called
  while \<open>Sheet1\<close> is the only sheet of the workbook, where the engine leaves it, and the
  run ends without an error on a workbook of two sheets.
\<close>

theorem default_sheet_left_over:
  "fst (Recreate testExtern (New oneSheet None)) = None \<and>
   SheetList (file' (snd (Recreate testExtern (New oneSheet None)))) = [''Sheet1'', ''Data'']"
  by code_simp








end
